theory Spec2Isabelle
  imports Complex_Main
begin

section \<open>Values and errors\<close>

text \<open>
  The program is Python 2 (\<^verbatim>\<open>nec2utils.py\<close> uses the \<^verbatim>\<open>print\<close> statement).
  Python integers are modelled by \<^typ>\<open>int\<close>. A Python float is modelled by the real
  number it denotes: arithmetic on floats is the arithmetic of \<^typ>\<open>real\<close>, so rounding,
  infinities and NaN are outside the model. Exceptions are values of type \<open>error\<close>,
  carrying the message of the \<^verbatim>\<open>raise\<close> statement (or the name that could not be
  resolved).
\<close>

datatype pynum = PyInt int | PyFloat real

datatype pyobj = PyNum pynum | PyStr string | PyNone

datatype error =
    TypeError string
  | ValueError string
  | KeyError string
  | AttributeError string

text \<open>
  A float that reaches a printed field keeps the sign of a zero, because the field shows
  it: \<^verbatim>\<open>'{: > 13.5E}'.format(-0.0)\<close> is \<^verbatim>\<open>' -0.00000E+00'\<close>, and the append calls
  negate coordinates and angles that may be zero (\<^verbatim>\<open>-t.y\<close>, \<^verbatim>\<open>-r.rx\<close>). Such a float is
  \<open>Float v\<close> for the real number \<open>v\<close> it denotes, \<open>Float 0\<close> being positive zero, or
  \<open>NegZero\<close>, negative zero.
\<close>

datatype pyfloat = Float real | NegZero

fun fval :: "pyfloat \<Rightarrow> real" where
  "fval (Float v) = v"
| "fval NegZero = 0"

text \<open>The sign bit: set for a negative number and for negative zero.\<close>

fun sign_bit :: "pyfloat \<Rightarrow> bool" where
  "sign_bit (Float v) = (v < 0)"
| "sign_bit NegZero = True"

text \<open>Unary minus flips the sign bit, also of a zero.\<close>

fun fneg :: "pyfloat \<Rightarrow> pyfloat" where
  "fneg (Float v) = (if v = 0 then NegZero else Float (- v))"
| "fneg NegZero = Float 0"

text \<open>
  Division by a positive number (the program divides by \<^verbatim>\<open>math.pi\<close> and by 2 only): the
  quotient of the values, a zero keeping its sign.
\<close>

fun fdiv_pos :: "pyfloat \<Rightarrow> real \<Rightarrow> pyfloat" where
  "fdiv_pos (Float v) c = Float (v / c)"
| "fdiv_pos NegZero c = NegZero"

section \<open>Field formatting\<close>

text \<open>
  The two field functions are \<^verbatim>\<open>'{: >6d}'.format(math.trunc(i))\<close> and
  \<^verbatim>\<open>'{: > 13.5E}'.format(f)\<close>. What \<^verbatim>\<open>str.format\<close> does with these two format
  specifications is written out here: \<^verbatim>\<open>d\<close> prints the decimal digits of an integer
  with a minus sign for a negative one; \<^verbatim>\<open>.5E\<close> prints the correctly rounded
  (ties to even) six-digit decimal mantissa, the letter E, the sign of the exponent and
  at least two exponent digits; the sign option \<^verbatim>\<open>' '\<close> puts a minus sign before a
  float whose sign bit is set (a negative number or negative zero) and a blank before
  any other; fill \<^verbatim>\<open>' '\<close> with alignment \<^verbatim>\<open>>\<close> pads on the left up to the width,
  which is a minimum.
\<close>

definition digit_char :: "nat \<Rightarrow> char" where
  "digit_char d = ''0123456789'' ! d"

fun str_nat :: "nat \<Rightarrow> string" where
  "str_nat n = (if n < 10 then [digit_char n] else str_nat (n div 10) @ [digit_char (n mod 10)])"

definition str_int :: "int \<Rightarrow> string" where
  "str_int i = (if i < 0 then ''-'' @ str_nat (nat (- i)) else str_nat (nat i))"

definition rjust :: "nat \<Rightarrow> char \<Rightarrow> string \<Rightarrow> string" where
  "rjust width fill s = replicate (width - length s) fill @ s"

text \<open>\<^verbatim>\<open>math.trunc\<close>: the identity on an integer, rounding toward zero on a float.\<close>

fun trunc :: "pynum \<Rightarrow> int" where
  "trunc (PyInt i) = i"
| "trunc (PyFloat f) = (if 0 \<le> f then \<lfloor>f\<rfloor> else \<lceil>f\<rceil>)"

definition dec :: "pynum \<Rightarrow> string" where
  "dec i = rjust 6 (CHR '' '') (str_int (trunc i))"

text \<open>
  Scaling of a positive number into the interval from 1 to 10, counting the decimal
  exponent: downwards for a number of at least 10, upwards for one below 1.
\<close>

function norm_down :: "real \<Rightarrow> int \<Rightarrow> real \<times> int" where
  "norm_down a e = (if 10 \<le> a then norm_down (a / 10) (e + 1) else (a, e))"
  by pat_completeness auto
termination
  by (relation "measure (\<lambda>(a, e). nat \<lfloor>a\<rfloor>)") (auto simp: floor_less_iff, linarith)

function norm_up :: "real \<Rightarrow> int \<Rightarrow> real \<times> int" where
  "norm_up a e = (if 0 < a \<and> a < 1 then norm_up (a * 10) (e - 1) else (a, e))"
  by pat_completeness auto
termination
proof (relation "measure (\<lambda>(a, e). nat \<lceil>1 / a\<rceil>)")
  fix a :: real and e :: int
  assume a: "0 < a \<and> a < 1"
  define v where "v = 1 / a"
  from a have v: "1 < v" by (simp add: v_def)
  have "\<lceil>v / 10\<rceil> < \<lceil>v\<rceil>"
  proof (cases "v \<le> 10")
    case True
    then have "\<lceil>v / 10\<rceil> \<le> 1" by (simp add: ceiling_le_iff)
    moreover from v have "2 \<le> \<lceil>v\<rceil>" by (simp add: le_ceiling_iff)
    ultimately show ?thesis by linarith
  next
    case False
    have "of_int \<lceil>v / 10\<rceil> < v / 10 + 1" by linarith
    also from False have "\<dots> < v" by simp
    also have "\<dots> \<le> of_int \<lceil>v\<rceil>" by simp
    finally show ?thesis by simp
  qed
  moreover have "v / 10 = 1 / (a * 10)" by (simp add: v_def)
  moreover from v have "0 < \<lceil>v\<rceil>" by (simp add: less_ceiling_iff)
  ultimately show "((a * 10, e - 1), (a, e)) \<in> measure (\<lambda>(a, e). nat \<lceil>1 / a\<rceil>)"
    by (simp add: v_def)
qed simp

definition round_half_even :: "real \<Rightarrow> int" where
  "round_half_even v =
     (let f = \<lfloor>v\<rfloor>; d = v - of_int f
      in if d < 1/2 then f else if 1/2 < d then f + 1 else if even f then f else f + 1)"

text \<open>
  The six mantissa digits (as a number from 100000 to 999999, or 0) and the decimal
  exponent of a non-negative number; a mantissa that rounds up to 10 becomes 1 with the
  exponent raised.
\<close>

definition sci_parts :: "real \<Rightarrow> nat \<times> int" where
  "sci_parts a =
     (if a = 0 then (0, 0)
      else let (mant, e) = (if 1 \<le> a then norm_down a 0 else norm_up a 0);
               d = nat (round_half_even (mant * 100000))
           in if 1000000 \<le> d then (100000, e + 1) else (d, e))"

definition format_E5 :: "real \<Rightarrow> string" where
  "format_E5 a =
     (let (d, e) = sci_parts a;
          ds = rjust 6 (CHR ''0'') (str_nat d)
      in take 1 ds @ ''.'' @ drop 1 ds @ ''E'' @ (if e < 0 then ''-'' else ''+'')
         @ rjust 2 (CHR ''0'') (str_nat (nat \<bar>e\<bar>)))"

definition sci :: "pyfloat \<Rightarrow> string" where
  "sci f = rjust 13 (CHR '' '') ((if sign_bit f then ''-'' else '' '') @ format_E5 \<bar>fval f\<bar>)"

section \<open>Unit conversions\<close>

text \<open>
  \<^verbatim>\<open>AWG\<close> first tests \<^verbatim>\<open>type(n) is not int\<close>, then \<^verbatim>\<open>n not in range(-3, 41)\<close>, and
  only then computes \<^verbatim>\<open>math.exp(2.1104 - 0.11594*n) * 1e-3\<close>.
\<close>

fun AWG :: "pyobj \<Rightarrow> error + real" where
  "AWG (PyNum (PyInt n)) =
     (if \<not> (-3 \<le> n \<and> n < 41) then Inl (ValueError ''AWG must be from -3 to 40'')
      else Inr (exp (2.1104 - 0.11594 * of_int n) * 0.001))"
| "AWG _ = Inl (TypeError ''AWG must be an integer'')"

section \<open>Points, rotations and the model object\<close>

text \<open>
  \<^verbatim>\<open>Point.__init__\<close> and \<^verbatim>\<open>Rotation.__init__\<close> apply \<^verbatim>\<open>float\<close> to their arguments,
  so the components are floats.
\<close>

record Point =
  x :: pyfloat
  y :: pyfloat
  z :: pyfloat

record Rotation =
  rx :: pyfloat
  ry :: pyfloat
  rz :: pyfloat

text \<open>
  The attribute \<^verbatim>\<open>middle\<close> is not assigned by \<^verbatim>\<open>__init__\<close>; it exists only after the
  first append call, hence the option. \<^verbatim>\<open>wavelength\<close> and \<^verbatim>\<open>frequency\<close> may be
  \<^verbatim>\<open>None\<close>; they and the velocity factor are never printed and are the real
  numbers they denote.
\<close>

record Model =
  wires :: string
  transforms :: string
  wireRadius :: pyfloat
  tag :: int
  EX_tag :: int
  EX_segment :: int
  endpoint :: Point
  velocityfactor :: real
  wavelength :: "real option"
  frequency :: "real option"
  transformBuffer :: string
  middle :: "int option"

text \<open>
  Truth value of an optional number, as \<^verbatim>\<open>if wavelength:\<close> tests it: \<^verbatim>\<open>None\<close> and
  zero are false.
\<close>

fun truthy :: "real option \<Rightarrow> bool" where
  "truthy None = False"
| "truthy (Some v) = (v \<noteq> 0)"

text \<open>
  \<^verbatim>\<open>Model.__init__(self, wireRadius, wavelength=None, frequency=None, velocityfactor=1.0)\<close>.
  In the two deriving branches the divisor has just been tested to be non-zero, so no
  branch can raise.
\<close>

definition Model_init :: "pyfloat \<Rightarrow> real option \<Rightarrow> real option \<Rightarrow> real \<Rightarrow> Model" where
  "Model_init wireRadius' wavelength' frequency' velocityfactor' =
     (let self = \<lparr> wires = '''', transforms = '''', wireRadius = wireRadius', tag = 0,
                    EX_tag = 0, EX_segment = 0,
                    endpoint = \<lparr> x = Float 0, y = Float 0, z = Float 0 \<rparr>,
                    velocityfactor = velocityfactor',
                    wavelength = None, frequency = None,
                    transformBuffer = '''', middle = None \<rparr>
      in if truthy wavelength' \<and> truthy frequency' then
           self\<lparr> wavelength := wavelength', frequency := frequency' \<rparr>
         else if truthy wavelength' then
           self\<lparr> wavelength := wavelength',
                 frequency := Some (velocityfactor' * 300000000 / the wavelength') \<rparr>
         else if truthy frequency' then
           self\<lparr> frequency := frequency',
                 wavelength := Some (velocityfactor' * 300000000 / the frequency') \<rparr>
         else
           self\<lparr> wavelength := None, frequency := None \<rparr>)"

section \<open>Cards\<close>

text \<open>
  The low-level methods of \<^verbatim>\<open>Model\<close> do not read \<^verbatim>\<open>self\<close>, so the parameter is
  dropped. Tags and segment counts are integers; the step count of \<^verbatim>\<open>fr\<close> is a
  number of either kind (the caller in \<^verbatim>\<open>collinear_1090.py\<close> passes the float
  \<^verbatim>\<open>2.0 / stepsize\<close>). An integer given to \<^verbatim>\<open>sci\<close> is formatted as the float of the
  same value, so the literal \<^verbatim>\<open>0\<close> is positive zero, and so is \<^verbatim>\<open>firstTag*1.0\<close> for
  the integer 0.
\<close>

definition newline :: string where
  "newline = [CHR 0x0A]"

definition gw ::
  "int \<Rightarrow> int \<Rightarrow> pyfloat \<Rightarrow> pyfloat \<Rightarrow> pyfloat \<Rightarrow> pyfloat \<Rightarrow> pyfloat \<Rightarrow> pyfloat \<Rightarrow> pyfloat \<Rightarrow> string"
  where
  "gw tag' segments x1 y1 z1 x2 y2 z2 radius =
     ''GW'' @ dec (PyInt tag') @ dec (PyInt segments)
     @ sci x1 @ sci y1 @ sci z1
     @ sci x2 @ sci y2 @ sci z2
     @ sci radius @ newline"

definition gh ::
  "int \<Rightarrow> int \<Rightarrow> pyfloat \<Rightarrow> pyfloat \<Rightarrow> pyfloat \<Rightarrow> pyfloat \<Rightarrow> pyfloat \<Rightarrow> pyfloat \<Rightarrow> pyfloat \<Rightarrow> string"
  where
  "gh tag' segments pitch height xzr1 yzr1 xzr2 yzr2 wireRadius' =
     ''GH'' @ dec (PyInt tag') @ dec (PyInt segments)
     @ sci pitch @ sci height
     @ sci xzr1 @ sci yzr1 @ sci xzr2 @ sci yzr2
     @ sci wireRadius' @ newline"

definition ga :: "int \<Rightarrow> int \<Rightarrow> pyfloat \<Rightarrow> pyfloat \<Rightarrow> pyfloat \<Rightarrow> pyfloat \<Rightarrow> string" where
  "ga tag' segments arcRadius startAngle endAngle wireRadius' =
     (let notUsed = Float 0.0
      in ''GA'' @ dec (PyInt tag') @ dec (PyInt segments)
         @ sci arcRadius @ sci startAngle @ sci endAngle
         @ sci wireRadius'
         @ sci notUsed
         @ sci notUsed @ sci notUsed @ newline)"

definition gm ::
  "pyfloat \<Rightarrow> pyfloat \<Rightarrow> pyfloat \<Rightarrow> pyfloat \<Rightarrow> pyfloat \<Rightarrow> pyfloat \<Rightarrow> int \<Rightarrow> string"
  where
  "gm rotX rotY rotZ trX trY trZ firstTag =
     (let tagIncrement = 0; newStructures = 0
      in ''GM'' @ dec (PyInt tagIncrement) @ dec (PyInt newStructures)
         @ sci rotX @ sci rotY @ sci rotZ
         @ sci trX @ sci trY @ sci trZ
         @ sci (Float (of_int firstTag * 1.0)) @ newline)"

definition ge :: string where
  "ge = (let GPFLAG = 0
         in ''GE'' @ dec (PyInt GPFLAG) @ dec (PyInt 0)
            @ sci (Float 0) @ sci (Float 0) @ sci (Float 0) @ sci (Float 0) @ sci (Float 0)
            @ sci (Float 0) @ sci (Float 0) @ newline)"

definition fr :: "pyfloat \<Rightarrow> pyfloat \<Rightarrow> pynum \<Rightarrow> string" where
  "fr start stepSize stepCount =
     (let IFRQ = 0; NFRQ = stepCount; I3 = 0; I4 = 0; FMHZ = start; DELFRQ = stepSize
      in ''FR'' @ dec (PyInt IFRQ) @ dec NFRQ @ dec (PyInt I3) @ dec (PyInt I4)
         @ sci FMHZ @ sci DELFRQ @ newline)"

definition ex :: "int \<Rightarrow> int \<Rightarrow> string" where
  "ex tag' segment =
     (let I1 = 0; I2 = tag'; I3 = segment; I4 = 0; F1 = Float 1.0; F2 = Float 0.0
      in ''EX'' @ dec (PyInt I1) @ dec (PyInt I2) @ dec (PyInt I3) @ dec (PyInt I4)
         @ sci F1 @ sci F2 @ sci (Float 0) @ sci (Float 0) @ sci (Float 0) @ sci (Float 0)
         @ newline)"

definition rp :: string where
  "rp = (let I1 = 0; NTH = 37; NPH = 37; I4 = 0;
             THETS = Float 0.0; PHIS = Float 0.0; DTH = Float 10.0; DPH = Float 10.0
         in ''RP'' @ dec (PyInt I1) @ dec (PyInt NTH) @ dec (PyInt NPH) @ dec (PyInt I4)
            @ sci THETS @ sci PHIS @ sci DTH @ sci DPH @ newline)"

definition en :: string where
  "en = ''EN'' @ newline"

section \<open>High-level geometry functions\<close>

definition flushTransformBuffer :: "Model \<Rightarrow> Model" where
  "flushTransformBuffer self =
     (let self = self\<lparr> transforms := transforms self @ transformBuffer self \<rparr>;
          self = self\<lparr> transformBuffer := '''' \<rparr>
      in self)"

text \<open>
  In Python 2 \<^verbatim>\<open>segments/2\<close> on an integer is floor division, which is \<open>div\<close> on
  \<^typ>\<open>int\<close>, and \<^verbatim>\<open>math.trunc\<close> leaves the integer quotient as it is.
  \<^verbatim>\<open>copy.copy(pt2)\<close> is the value \<open>pt2\<close>.
\<close>

definition addWire :: "Model \<Rightarrow> int \<Rightarrow> Point \<Rightarrow> Point \<Rightarrow> Model" where
  "addWire self segments pt1 pt2 =
     (let self = self\<lparr> tag := tag self + 1 \<rparr>;
          self = self\<lparr> wires := wires self
                   @ gw (tag self) segments (x pt1) (y pt1) (z pt1) (x pt2) (y pt2) (z pt2)
                        (wireRadius self) \<rparr>;
          self = flushTransformBuffer self;
          self = self\<lparr> middle := Some (trunc (PyInt (segments div 2)) + 1) \<rparr>;
          self = self\<lparr> endpoint := pt2 \<rparr>
      in self)"

definition addArc ::
  "Model \<Rightarrow> int \<Rightarrow> pyfloat \<Rightarrow> pyfloat \<Rightarrow> pyfloat \<Rightarrow> Rotation \<Rightarrow> Point \<Rightarrow> Model"
  where
  "addArc self segments radius start end' rotate' translate =
     (let self = self\<lparr> tag := tag self + 1 \<rparr>;
          self = self\<lparr> wires := wires self
                   @ ga (tag self) segments radius start end' (wireRadius self) \<rparr>;
          self = flushTransformBuffer self;
          self = self\<lparr> middle := Some (trunc (PyInt (segments div 2)) + 1) \<rparr>;
          r = rotate';
          t = translate;
          self = self\<lparr> transforms := transforms self
                   @ gm (rx r) (ry r) (rz r) (x t) (y t) (z t) (tag self) \<rparr>;
          self = self\<lparr> transformBuffer := transformBuffer self
                   @ gm (Float 0.0) (Float 0.0) (Float 0.0) (fneg (x t)) (fneg (y t)) (fneg (z t)) (tag self + 1) \<rparr>;
          self = self\<lparr> transformBuffer := transformBuffer self
                   @ gm (Float 0.0) (Float 0.0) (fneg (rz r)) (Float 0.0) (Float 0.0) (Float 0.0) (tag self + 1) \<rparr>;
          self = self\<lparr> transformBuffer := transformBuffer self
                   @ gm (Float 0.0) (fneg (ry r)) (Float 0.0) (Float 0.0) (Float 0.0) (Float 0.0) (tag self + 1) \<rparr>;
          self = self\<lparr> transformBuffer := transformBuffer self
                   @ gm (fneg (rx r)) (Float 0.0) (Float 0.0) (Float 0.0) (Float 0.0) (Float 0.0) (tag self + 1) \<rparr>
      in self)"

text \<open>
  \<^verbatim>\<open>addHelix(self, segments, pt1, properties, rotate=None, translate=None)\<close>: the
  dictionary lookups raise \<^verbatim>\<open>KeyError\<close> for a missing key, and the attribute accesses
  \<^verbatim>\<open>r.rx\<close> and \<^verbatim>\<open>t.x\<close> raise \<^verbatim>\<open>AttributeError\<close> when the argument was left at
  \<^verbatim>\<open>None\<close>. An exception ends the call; the object it leaves behind is not modelled.
\<close>

definition addHelix ::
  "Model \<Rightarrow> int \<Rightarrow> Point \<Rightarrow> (string \<rightharpoonup> pyfloat) \<Rightarrow> Rotation option \<Rightarrow> Point option \<Rightarrow> error + Model"
where
  "addHelix self segments pt1 properties rotate' translate =
     (let self = self\<lparr> tag := tag self + 1 \<rparr>
      in case properties ''length'' of None \<Rightarrow> Inl (KeyError ''length'') | Some len \<Rightarrow>
        (let hr = fdiv_pos (fdiv_pos len pi) 2
         in case properties ''height'' of None \<Rightarrow> Inl (KeyError ''height'') | Some height \<Rightarrow>
           (let pitch = height;
                self = self\<lparr> wires := wires self
                         @ gh (tag self) segments pitch height hr hr hr hr (wireRadius self) \<rparr>;
                self = flushTransformBuffer self
            in case rotate' of None \<Rightarrow> Inl (AttributeError ''rx'') | Some r \<Rightarrow>
              (case translate of None \<Rightarrow> Inl (AttributeError ''x'') | Some t \<Rightarrow>
              (let self = self\<lparr> transforms := transforms self
                            @ gm (rx r) (ry r) (rz r) (x t) (y t) (z t) (tag self) \<rparr>;
                   self = self\<lparr> transformBuffer := transformBuffer self
                            @ gm (Float 0.0) (Float 0.0) (Float 0.0) (fneg (x t)) (fneg (y t)) (fneg (z t)) (tag self + 1) \<rparr>;
                   self = self\<lparr> transformBuffer := transformBuffer self
                            @ gm (Float 0.0) (Float 0.0) (fneg (rz r)) (Float 0.0) (Float 0.0) (Float 0.0) (tag self + 1) \<rparr>;
                   self = self\<lparr> transformBuffer := transformBuffer self
                            @ gm (Float 0.0) (fneg (ry r)) (Float 0.0) (Float 0.0) (Float 0.0) (Float 0.0) (tag self + 1) \<rparr>;
                   self = self\<lparr> transformBuffer := transformBuffer self
                            @ gm (fneg (rx r)) (Float 0.0) (Float 0.0) (Float 0.0) (Float 0.0) (Float 0.0) (tag self + 1) \<rparr>;
                   self = self\<lparr> middle := Some (trunc (PyInt (segments div 2)) + 1) \<rparr>
               in Inr self)))))"

text \<open>
  \<^verbatim>\<open>feedAtMiddle\<close> reads \<^verbatim>\<open>self.middle\<close>, which does not exist before the first
  append call.
\<close>

definition feedAtMiddle :: "Model \<Rightarrow> error + Model" where
  "feedAtMiddle self =
     (case middle self of
        None \<Rightarrow> Inl (AttributeError ''middle'')
      | Some mid \<Rightarrow> Inr (self\<lparr> EX_tag := tag self, EX_segment := mid \<rparr>))"

definition feedAtStart :: "Model \<Rightarrow> Model" where
  "feedAtStart self = self\<lparr> EX_tag := tag self, EX_segment := 1 \<rparr>"

text \<open>
  \<^verbatim>\<open>getText\<close> builds the footer in a local variable and assigns nothing to
  \<^verbatim>\<open>self\<close>. \<open>getText\<close> is the returned text; \<open>getText_call\<close> is the call with the
  object it leaves behind.
\<close>

definition getText :: "Model \<Rightarrow> pyfloat \<Rightarrow> pyfloat \<Rightarrow> pynum \<Rightarrow> string" where
  "getText self start stepSize stepCount =
     (let footer = ge;
          footer = footer @ ex (EX_tag self) (EX_segment self);
          footer = footer @ fr start stepSize stepCount;
          footer = footer @ rp;
          footer = footer @ en
      in wires self @ transforms self @ footer)"

definition getText_call :: "Model \<Rightarrow> pyfloat \<Rightarrow> pyfloat \<Rightarrow> pynum \<Rightarrow> string \<times> Model" where
  "getText_call self start stepSize stepCount = (getText self start stepSize stepCount, self)"

section \<open>Call sequences\<close>

text \<open>
  A caller, such as \<^verbatim>\<open>collinear_1090.py\<close>, constructs a model, makes a sequence
  of append and feed calls and finally calls \<^verbatim>\<open>getText\<close>. An exception raised by a
  call ends the sequence.
\<close>

datatype call =
    AddWire int Point Point
  | AddArc int pyfloat pyfloat pyfloat Rotation Point
  | AddHelix int Point "string \<rightharpoonup> pyfloat" "Rotation option" "Point option"
  | FeedAtMiddle
  | FeedAtStart

fun step :: "Model \<Rightarrow> call \<Rightarrow> error + Model" where
  "step self (AddWire segments pt1 pt2) = Inr (addWire self segments pt1 pt2)"
| "step self (AddArc segments radius start end' rotate' translate) =
     Inr (addArc self segments radius start end' rotate' translate)"
| "step self (AddHelix segments pt1 properties rotate' translate) =
     addHelix self segments pt1 properties rotate' translate"
| "step self FeedAtMiddle = feedAtMiddle self"
| "step self FeedAtStart = Inr (feedAtStart self)"

fun run :: "Model \<Rightarrow> call list \<Rightarrow> error + Model" where
  "run self [] = Inr self"
| "run self (c # cs) = (case step self c of Inl e \<Rightarrow> Inl e | Inr self' \<Rightarrow> run self' cs)"

definition script :: "Model \<Rightarrow> call list \<Rightarrow> pyfloat \<Rightarrow> pyfloat \<Rightarrow> pynum \<Rightarrow> error + string" where
  "script self calls start stepSize stepCount =
     (case run self calls of
        Inl e \<Rightarrow> Inl e
      | Inr self' \<Rightarrow> Inr (getText self' start stepSize stepCount))"

section \<open>What a call sequence is expected to emit\<close>

text \<open>
  The definitions of this section are not taken from the program. They describe, call
  by call, the records that the claims speak about, and the theorems below compare the
  text built by the program with them.
\<close>

fun is_append :: "call \<Rightarrow> bool" where
  "is_append (AddWire _ _ _) = True"
| "is_append (AddArc _ _ _ _ _ _) = True"
| "is_append (AddHelix _ _ _ _ _) = True"
| "is_append _ = False"

definition appends :: "call list \<Rightarrow> call list" where
  "appends calls = filter is_append calls"

fun segments_of :: "call \<Rightarrow> int" where
  "segments_of (AddWire segments _ _) = segments"
| "segments_of (AddArc segments _ _ _ _ _) = segments"
| "segments_of (AddHelix segments _ _ _ _) = segments"
| "segments_of _ = 0"

text \<open>The primitive record of an append call that is given the tag \<open>T\<close>.\<close>

fun primitive_record :: "pyfloat \<Rightarrow> int \<Rightarrow> call \<Rightarrow> string" where
  "primitive_record r T (AddWire segments pt1 pt2) =
     gw T segments (x pt1) (y pt1) (z pt1) (x pt2) (y pt2) (z pt2) r"
| "primitive_record r T (AddArc segments radius start end' rot tr) =
     ga T segments radius start end' r"
| "primitive_record r T (AddHelix segments pt1 properties rot tr) =
     gh T segments (the (properties ''height'')) (the (properties ''height''))
        (fdiv_pos (fdiv_pos (the (properties ''length'')) pi) 2)
        (fdiv_pos (fdiv_pos (the (properties ''length'')) pi) 2)
        (fdiv_pos (fdiv_pos (the (properties ''length'')) pi) 2)
        (fdiv_pos (fdiv_pos (the (properties ''length'')) pi) 2) r"
| "primitive_record r T _ = ''''"

text \<open>The records of the calls \<open>cs\<close>, the first with tag \<open>T + 1\<close>, the next with \<open>T + 2\<close>, \<dots>\<close>

definition numbered_records :: "pyfloat \<Rightarrow> int \<Rightarrow> call list \<Rightarrow> string" where
  "numbered_records r T cs =
     concat (map (\<lambda>i. primitive_record r (T + int i + 1) (cs ! i)) [0..<length cs])"

text \<open>
  A transform record before formatting: three rotation angles, three translations and
  the tag it applies from.
\<close>

datatype gm_card = GM pyfloat pyfloat pyfloat pyfloat pyfloat pyfloat int

fun gm_text :: "gm_card \<Rightarrow> string" where
  "gm_text (GM rotX rotY rotZ trX trY trZ firstTag) = gm rotX rotY rotZ trX trY trZ firstTag"

fun first_tag :: "gm_card \<Rightarrow> int" where
  "first_tag (GM rotX rotY rotZ trX trY trZ firstTag) = firstTag"

definition gm_texts :: "gm_card list \<Rightarrow> string" where
  "gm_texts cards = concat (map gm_text cards)"

text \<open>The rotation and translation with which an arc or helix is placed.\<close>

fun placing :: "call \<Rightarrow> (Rotation \<times> Point) option" where
  "placing (AddArc _ _ _ _ rot tr) = Some (rot, tr)"
| "placing (AddHelix _ _ _ (Some rot) (Some tr)) = Some (rot, tr)"
| "placing _ = None"

definition placement :: "Rotation \<Rightarrow> Point \<Rightarrow> int \<Rightarrow> gm_card" where
  "placement rot tr T = GM (rx rot) (ry rot) (rz rot) (x tr) (y tr) (z tr) T"

text \<open>
  The four restoration records: undo the translation, then the rotation about Z, about
  Y and about X, each with the negated component and positive zeros elsewhere.
\<close>

definition restoration :: "Rotation \<Rightarrow> Point \<Rightarrow> int \<Rightarrow> gm_card list" where
  "restoration rot tr T =
     [GM (Float 0) (Float 0) (Float 0) (fneg (x tr)) (fneg (y tr)) (fneg (z tr)) T,
      GM (Float 0) (Float 0) (fneg (rz rot)) (Float 0) (Float 0) (Float 0) T,
      GM (Float 0) (fneg (ry rot)) (Float 0) (Float 0) (Float 0) (Float 0) T,
      GM (fneg (rx rot)) (Float 0) (Float 0) (Float 0) (Float 0) (Float 0) T]"

text \<open>
  The transform an element with tag \<open>T\<close> emits at once, and the transforms it leaves
  queued for the element after it.
\<close>

definition own_transforms :: "call \<Rightarrow> int \<Rightarrow> gm_card list" where
  "own_transforms c T = (case placing c of Some (rot, tr) \<Rightarrow> [placement rot tr T] | None \<Rightarrow> [])"

definition queued_transforms :: "call \<Rightarrow> int \<Rightarrow> gm_card list" where
  "queued_transforms c T =
     (case placing c of Some (rot, tr) \<Rightarrow> restoration rot tr (T + 1) | None \<Rightarrow> [])"

text \<open>
  The transforms that reach the permanent stream when the calls \<open>cs\<close> are made after
  \<open>T\<close> elements with \<open>pending\<close> queued, and the transforms still queued afterwards.
\<close>

fun transform_log :: "int \<Rightarrow> gm_card list \<Rightarrow> call list \<Rightarrow> gm_card list" where
  "transform_log T pending [] = []"
| "transform_log T pending (c # cs) =
     (if is_append c
      then pending @ own_transforms c (T + 1)
           @ transform_log (T + 1) (queued_transforms c (T + 1)) cs
      else transform_log T pending cs)"

fun pending_log :: "int \<Rightarrow> gm_card list \<Rightarrow> call list \<Rightarrow> gm_card list" where
  "pending_log T pending [] = pending"
| "pending_log T pending (c # cs) =
     (if is_append c then pending_log (T + 1) (queued_transforms c (T + 1)) cs
      else pending_log T pending cs)"

text \<open>The records of a text: its lines, each with the newline that ends it.\<close>

fun records_acc :: "string \<Rightarrow> string \<Rightarrow> string list" where
  "records_acc line [] = (if line = [] then [] else [line])"
| "records_acc line (c # cs) =
     (if c = CHR 0x0A then (line @ [c]) # records_acc [] cs else records_acc (line @ [c]) cs)"

definition records :: "string \<Rightarrow> string list" where
  "records text = records_acc [] text"

text \<open>Some occurrence of \<open>a\<close> in the list lies strictly before some occurrence of \<open>b\<close>.\<close>

fun occurs_before :: "'a \<Rightarrow> 'a \<Rightarrow> 'a list \<Rightarrow> bool" where
  "occurs_before a b [] = False"
| "occurs_before a b (v # vs) = ((v = a \<and> b \<in> set vs) \<or> occurs_before a b vs)"

text \<open>The decimal digits, and the shape of a float printed with \<^verbatim>\<open>.5E\<close>: one digit, a
  point, five digits, the letter E, the sign of the exponent and two or three exponent
  digits.\<close>

definition digits :: "char set" where
  "digits = set ''0123456789''"

definition E5_shape :: "string \<Rightarrow> bool" where
  "E5_shape s \<longleftrightarrow>
     (length s = 11 \<or> length s = 12) \<and> s ! 1 = CHR ''.'' \<and> s ! 7 = CHR ''E'' \<and>
     (s ! 8 = CHR ''+'' \<or> s ! 8 = CHR ''-'') \<and>
     set (take 1 s) \<subseteq> digits \<and> set (take 5 (drop 2 s)) \<subseteq> digits \<and>
     set (drop 9 s) \<subseteq> digits"

text \<open>A record: a text that ends with a newline and holds no other newline.\<close>

definition is_record :: "string \<Rightarrow> bool" where
  "is_record s \<longleftrightarrow> s \<noteq> [] \<and> last s = CHR 0x0A \<and> CHR 0x0A \<notin> set (butlast s)"

text \<open>
  The layout of a record: the mnemonic, then the integer fields, then the real fields,
  then the newline.
\<close>

definition card_layout :: "string \<Rightarrow> pynum list \<Rightarrow> pyfloat list \<Rightarrow> string" where
  "card_layout mnemonic ints reals =
     mnemonic @ concat (map dec ints) @ concat (map sci reals) @ newline"

section \<open>Evaluation rules\<close>

text \<open>
  The recursive equations are taken out of the simplifier and replaced by one rule per
  branch, so that a term is unfolded only as far as its argument decides.
\<close>

declare str_nat.simps [simp del] norm_down.simps [simp del] norm_up.simps [simp del]

lemma norm_down_step: "10 \<le> a \<Longrightarrow> norm_down a e = norm_down (a / 10) (e + 1)"
  by (subst norm_down.simps) simp

lemma norm_down_stop: "a < 10 \<Longrightarrow> norm_down a e = (a, e)"
  by (subst norm_down.simps) simp

lemma norm_up_step: "0 < a \<Longrightarrow> a < 1 \<Longrightarrow> norm_up a e = norm_up (a * 10) (e - 1)"
  by (subst norm_up.simps) simp

lemma norm_up_stop: "a \<le> 0 \<or> 1 \<le> a \<Longrightarrow> norm_up a e = (a, e)"
  by (subst norm_up.simps) auto

lemma str_nat_digit: "n < 10 \<Longrightarrow> str_nat n = [digit_char n]"
  by (subst str_nat.simps) simp

lemma str_nat_step: "10 \<le> n \<Longrightarrow> str_nat n = str_nat (n div 10) @ [digit_char (n mod 10)]"
  by (subst str_nat.simps) simp

lemma replicate_numeral: "replicate (numeral k) c = c # replicate (pred_numeral k) c"
  by (simp add: numeral_eq_Suc)

lemmas format_eval =
  sci_def format_E5_def sci_parts_def round_half_even_def rjust_def dec_def str_int_def
  digit_char_def norm_up_step norm_up_stop norm_down_step norm_down_stop
  str_nat_digit str_nat_step replicate_numeral

text \<open>The two fields that occur in almost every card.\<close>

lemma sci_0: "sci (Float 0) = ''  0.00000E+00''"
  by (simp add: format_eval)

lemma dec_0: "dec (PyInt 0) = ''     0''"
  by (simp add: format_eval)

text \<open>The cards and the operations with their local variables substituted.\<close>

lemma ga_eq: "ga t s r a b w =
    ''GA'' @ dec (PyInt t) @ dec (PyInt s) @ sci r @ sci a @ sci b @ sci w
    @ sci (Float 0) @ sci (Float 0) @ sci (Float 0) @ newline"
  by (simp add: ga_def Let_def)

lemma gm_eq: "gm a b c d e f t =
    ''GM'' @ dec (PyInt 0) @ dec (PyInt 0) @ sci a @ sci b @ sci c @ sci d @ sci e @ sci f
    @ sci (Float (of_int t)) @ newline"
  by (simp add: gm_def)

lemma ge_eq: "ge =
    ''GE'' @ dec (PyInt 0) @ dec (PyInt 0)
    @ sci (Float 0) @ sci (Float 0) @ sci (Float 0) @ sci (Float 0) @ sci (Float 0)
    @ sci (Float 0) @ sci (Float 0) @ newline"
  by (simp add: ge_def)

lemma fr_eq: "fr a b n =
    ''FR'' @ dec (PyInt 0) @ dec n @ dec (PyInt 0) @ dec (PyInt 0) @ sci a @ sci b @ newline"
  by (simp add: fr_def)

lemma ex_eq: "ex t s =
    ''EX'' @ dec (PyInt 0) @ dec (PyInt t) @ dec (PyInt s) @ dec (PyInt 0)
    @ sci (Float 1) @ sci (Float 0) @ sci (Float 0) @ sci (Float 0) @ sci (Float 0)
    @ sci (Float 0) @ newline"
  by (simp add: ex_def Let_def)

lemma rp_eq: "rp =
    ''RP'' @ dec (PyInt 0) @ dec (PyInt 37) @ dec (PyInt 37) @ dec (PyInt 0)
    @ sci (Float 0) @ sci (Float 0) @ sci (Float 10) @ sci (Float 10) @ newline"
  by (simp add: rp_def Let_def)

lemmas card_eqs = gw_def gh_def ga_eq gm_eq ge_eq fr_eq ex_eq rp_eq en_def

lemma flushTransformBuffer_eq:
  "flushTransformBuffer self =
     self\<lparr> transforms := transforms self @ transformBuffer self, transformBuffer := '''' \<rparr>"
  by (simp add: flushTransformBuffer_def)

lemma addWire_eq:
  "addWire self s p1 p2 =
     self\<lparr> tag := tag self + 1,
           wires := wires self @ gw (tag self + 1) s (x p1) (y p1) (z p1) (x p2) (y p2) (z p2)
                                   (wireRadius self),
           transforms := transforms self @ transformBuffer self,
           transformBuffer := '''',
           middle := Some (s div 2 + 1),
           endpoint := p2 \<rparr>"
  by (cases self) (simp add: addWire_def flushTransformBuffer_eq)

lemma addArc_eq:
  "addArc self s r a b rot tr =
     self\<lparr> tag := tag self + 1,
           wires := wires self @ ga (tag self + 1) s r a b (wireRadius self),
           transforms := transforms self @ transformBuffer self
              @ gm (rx rot) (ry rot) (rz rot) (x tr) (y tr) (z tr) (tag self + 1),
           transformBuffer :=
                gm (Float 0) (Float 0) (Float 0) (fneg (x tr)) (fneg (y tr)) (fneg (z tr)) (tag self + 1 + 1)
              @ gm (Float 0) (Float 0) (fneg (rz rot)) (Float 0) (Float 0) (Float 0) (tag self + 1 + 1)
              @ gm (Float 0) (fneg (ry rot)) (Float 0) (Float 0) (Float 0) (Float 0) (tag self + 1 + 1)
              @ gm (fneg (rx rot)) (Float 0) (Float 0) (Float 0) (Float 0) (Float 0) (tag self + 1 + 1),
           middle := Some (s div 2 + 1) \<rparr>"
  by (cases self) (simp add: addArc_def flushTransformBuffer_eq add.commute)

lemma addHelix_eq:
  "addHelix self s p1 props (Some rot) (Some tr) =
     (case props ''length'' of None \<Rightarrow> Inl (KeyError ''length'') | Some len \<Rightarrow>
     (case props ''height'' of None \<Rightarrow> Inl (KeyError ''height'') | Some h \<Rightarrow>
      Inr (self\<lparr> tag := tag self + 1,
           wires := wires self @ gh (tag self + 1) s h h
                (fdiv_pos (fdiv_pos len pi) 2) (fdiv_pos (fdiv_pos len pi) 2)
                (fdiv_pos (fdiv_pos len pi) 2) (fdiv_pos (fdiv_pos len pi) 2) (wireRadius self),
           transforms := transforms self @ transformBuffer self
              @ gm (rx rot) (ry rot) (rz rot) (x tr) (y tr) (z tr) (tag self + 1),
           transformBuffer :=
                gm (Float 0) (Float 0) (Float 0) (fneg (x tr)) (fneg (y tr)) (fneg (z tr)) (tag self + 1 + 1)
              @ gm (Float 0) (Float 0) (fneg (rz rot)) (Float 0) (Float 0) (Float 0) (tag self + 1 + 1)
              @ gm (Float 0) (fneg (ry rot)) (Float 0) (Float 0) (Float 0) (Float 0) (tag self + 1 + 1)
              @ gm (fneg (rx rot)) (Float 0) (Float 0) (Float 0) (Float 0) (Float 0) (tag self + 1 + 1),
           middle := Some (s div 2 + 1) \<rparr>)))"
  by (cases self) (simp add: addHelix_def flushTransformBuffer_eq Let_def add.commute split: option.splits)

lemma getText_eq:
  "getText self a b n =
     wires self @ transforms self @ ge @ ex (EX_tag self) (EX_segment self) @ fr a b n @ rp @ en"
  by (simp add: getText_def)


section \<open>Single calls and call sequences\<close>

lemma gm_texts_Nil [simp]: "gm_texts [] = []"
  by (simp add: gm_texts_def)

lemma gm_texts_append [simp]: "gm_texts (as @ bs) = gm_texts as @ gm_texts bs"
  by (simp add: gm_texts_def)

lemma gm_texts_restoration:
  "gm_texts (restoration rot tr T) =
     gm (Float 0) (Float 0) (Float 0) (fneg (x tr)) (fneg (y tr)) (fneg (z tr)) T
     @ gm (Float 0) (Float 0) (fneg (rz rot)) (Float 0) (Float 0) (Float 0) T
     @ gm (Float 0) (fneg (ry rot)) (Float 0) (Float 0) (Float 0) (Float 0) T
     @ gm (fneg (rx rot)) (Float 0) (Float 0) (Float 0) (Float 0) (Float 0) T"
  by (simp add: gm_texts_def restoration_def)

lemma gm_texts_placement:
  "gm_texts [placement rot tr T] = gm (rx rot) (ry rot) (rz rot) (x tr) (y tr) (z tr) T"
  by (simp add: gm_texts_def placement_def)

lemma numbered_records_Nil [simp]: "numbered_records r T [] = []"
  by (simp add: numbered_records_def)

lemma addHelix_cases:
  "addHelix self s p props rot tr =
     (case props ''length'' of None \<Rightarrow> Inl (KeyError ''length'') | Some len \<Rightarrow>
     (case props ''height'' of None \<Rightarrow> Inl (KeyError ''height'') | Some h \<Rightarrow>
     (case rot of None \<Rightarrow> Inl (AttributeError ''rx'') | Some r \<Rightarrow>
     (case tr of None \<Rightarrow> Inl (AttributeError ''x'') | Some t \<Rightarrow>
        addHelix self s p props (Some r) (Some t)))))"
  by (simp add: addHelix_def Let_def split: option.splits)

lemma addHelix_Inr:
  assumes "addHelix self s p props rot tr = Inr self'"
  shows "\<exists>r t len h. rot = Some r \<and> tr = Some t \<and> props ''length'' = Some len
           \<and> props ''height'' = Some h"
  using assms by (subst (asm) addHelix_cases) (auto split: option.splits)

text \<open>What one successful append call does to the object.\<close>

lemma step_append:
  assumes "step self c = Inr self'" and "is_append c"
  shows "tag self' = tag self + 1
    \<and> wireRadius self' = wireRadius self
    \<and> wires self' = wires self @ primitive_record (wireRadius self) (tag self + 1) c
    \<and> transforms self' =
           transforms self @ transformBuffer self @ gm_texts (own_transforms c (tag self + 1))
    \<and> transformBuffer self' = gm_texts (queued_transforms c (tag self + 1))
    \<and> middle self' = Some (segments_of c div 2 + 1)
    \<and> EX_tag self' = EX_tag self
    \<and> EX_segment self' = EX_segment self"
proof (cases c)
  case (AddWire s p1 p2)
  with assms show ?thesis
    by (auto simp: addWire_eq own_transforms_def queued_transforms_def)
next
  case (AddArc s r a b rot tr)
  with assms show ?thesis
    by (auto simp: addArc_eq own_transforms_def queued_transforms_def
          gm_texts_restoration gm_texts_placement)
next
  case (AddHelix s p props rot tr)
  with assms have h: "addHelix self s p props rot tr = Inr self'" by simp
  from addHelix_Inr [OF h] obtain r t len h' where
    eqs: "rot = Some r" "tr = Some t" "props ''length'' = Some len" "props ''height'' = Some h'"
    by blast
  from h eqs show ?thesis
    by (auto simp: AddHelix addHelix_eq own_transforms_def queued_transforms_def
          gm_texts_restoration gm_texts_placement)
next
  case FeedAtMiddle
  with assms show ?thesis by simp
next
  case FeedAtStart
  with assms show ?thesis by simp
qed

lemma numbered_records_Cons:
  "numbered_records r T (c # cs) = primitive_record r (T + 1) c @ numbered_records r (T + 1) cs"
proof -
  have "map (\<lambda>i. primitive_record r (T + int i + 1) ((c # cs) ! i)) [0..<Suc (length cs)] =
        primitive_record r (T + 1) c
        # map (\<lambda>i. primitive_record r (T + 1 + int i + 1) (cs ! i)) [0..<length cs]"
    by (simp only: map_upt_Suc) (simp add: add.commute add.left_commute)
  then show ?thesis by (simp add: numbered_records_def)
qed

text \<open>A feed call leaves the buffers, the tag and the middle segment alone.\<close>

lemma step_feed:
  assumes "step self c = Inr self'" and "\<not> is_append c"
  shows "tag self' = tag self \<and> wireRadius self' = wireRadius self \<and> wires self' = wires self
    \<and> transforms self' = transforms self \<and> transformBuffer self' = transformBuffer self
    \<and> middle self' = middle self"
  using assms
  by (cases c) (auto simp: feedAtMiddle_def feedAtStart_def split: option.splits)


lemma run_Cons_Inr:
  assumes "run self (c # cs) = Inr self'"
  obtains mid where "step self c = Inr mid" and "run mid cs = Inr self'"
  using assms by (cases "step self c") auto

text \<open>
  What a successful call sequence does to the object, compared with the expected
  records; by induction on the calls, for any starting object.
\<close>

lemma run_invariant:
  assumes "run self calls = Inr self'" and "transformBuffer self = gm_texts pending"
  shows "tag self' = tag self + int (length (appends calls))
    \<and> wireRadius self' = wireRadius self
    \<and> wires self' = wires self @ numbered_records (wireRadius self) (tag self) (appends calls)
    \<and> transforms self' = transforms self @ gm_texts (transform_log (tag self) pending calls)
    \<and> transformBuffer self' = gm_texts (pending_log (tag self) pending calls)"
  using assms
proof (induction calls arbitrary: self pending)
  case Nil
  then show ?case by (simp add: appends_def)
next
  case (Cons c cs)
  from Cons.prems(1) obtain mid where
    mid: "step self c = Inr mid" and rest: "run mid cs = Inr self'"
    by (rule run_Cons_Inr)
  show ?case
  proof (cases "is_append c")
    case True
    note s = step_append [OF mid True]
    from s have buf: "transformBuffer mid = gm_texts (queued_transforms c (tag self + 1))"
      by simp
    from Cons.IH [OF rest buf] s Cons.prems(2) True show ?thesis
      by (simp add: appends_def numbered_records_Cons)
  next
    case False
    note s = step_feed [OF mid False]
    from s Cons.prems(2) have buf: "transformBuffer mid = gm_texts pending" by simp
    from Cons.IH [OF rest buf] s False show ?thesis
      by (simp add: appends_def)
  qed
qed

lemma run_middle:
  assumes "run self calls = Inr self'" and "appends calls \<noteq> []"
  shows "middle self' = Some (segments_of (last (appends calls)) div 2 + 1)"
  using assms
proof (induction calls arbitrary: self)
  case Nil
  then show ?case by (simp add: appends_def)
next
  case (Cons c cs)
  from Cons.prems(1) obtain mid where
    mid: "step self c = Inr mid" and rest: "run mid cs = Inr self'"
    by (rule run_Cons_Inr)
  show ?case
  proof (cases "appends cs = []")
    case True
    with Cons.prems(2) have app: "is_append c" by (auto simp: appends_def split: if_splits)
    have "\<And>s. run s cs = Inr self' \<Longrightarrow> appends cs = [] \<Longrightarrow> middle self' = middle s"
    proof -
      fix s show "run s cs = Inr self' \<Longrightarrow> appends cs = [] \<Longrightarrow> middle self' = middle s"
      proof (induction cs arbitrary: s)
        case Nil then show ?case by simp
      next
        case (Cons d ds)
        from Cons.prems(1) obtain mid' where
          m1: "step s d = Inr mid'" and m2: "run mid' ds = Inr self'"
          by (rule run_Cons_Inr)
        from Cons.prems(2) have nd: "\<not> is_append d" and nds: "appends ds = []"
          by (auto simp: appends_def split: if_splits)
        from Cons.IH [OF m2 nds] step_feed [OF m1 nd] show ?case by simp
      qed
    qed
    from this [OF rest True] step_append [OF mid app] True app show ?thesis
      by (simp add: appends_def)
  next
    case False
    from Cons.IH [OF rest False] False show ?thesis
      by (simp add: appends_def)
  qed
qed

lemma transform_log_tags:
  assumes "\<forall>g\<in>set pending. first_tag g \<le> T + 1" and "g \<in> set (transform_log T pending cs)"
  shows "first_tag g \<le> T + int (length (appends cs))"
  using assms
proof (induction cs arbitrary: T pending)
  case Nil
  then show ?case by simp
next
  case (Cons c cs)
  show ?case
  proof (cases "is_append c")
    case True
    have q: "\<forall>g\<in>set (queued_transforms c (T + 1)). first_tag g \<le> T + 1 + 1"
      by (auto simp: queued_transforms_def restoration_def split: option.splits)
    from Cons.prems(2) True consider
        "g \<in> set pending" | "g \<in> set (own_transforms c (T + 1))"
      | "g \<in> set (transform_log (T + 1) (queued_transforms c (T + 1)) cs)"
      by auto
    then show ?thesis
    proof cases
      case 1
      with Cons.prems(1) True show ?thesis by (auto simp: appends_def)
    next
      case 2
      with True show ?thesis
        by (auto simp: appends_def own_transforms_def placement_def split: option.splits)
    next
      case 3
      from Cons.IH [OF q 3] True show ?thesis by (simp add: appends_def)
    qed
  next
    case False
    with Cons.prems(2) have "g \<in> set (transform_log T pending cs)" by simp
    from Cons.IH [OF Cons.prems(1) this] False show ?thesis by (simp add: appends_def)
  qed
qed

lemma pending_log_last:
  assumes "appends cs \<noteq> []"
  shows "pending_log T pending cs =
           queued_transforms (last (appends cs)) (T + int (length (appends cs)))"
  using assms
proof (induction cs arbitrary: T pending)
  case Nil
  then show ?case by (simp add: appends_def)
next
  case (Cons c cs)
  show ?case
  proof (cases "appends cs = []")
    case True
    have none: "\<And>U p. appends cs = [] \<Longrightarrow> pending_log U p cs = p"
    proof -
      fix U p show "appends cs = [] \<Longrightarrow> pending_log U p cs = p"
        by (induction cs arbitrary: U p) (auto simp: appends_def split: if_splits)
    qed
    from Cons.prems True have "is_append c" by (auto simp: appends_def split: if_splits)
    with True none [OF True] show ?thesis by (simp add: appends_def)
  next
    case False
    from Cons.IH [OF False] False show ?thesis
      by (simp add: appends_def add.assoc)
  qed
qed

text \<open>The freshly constructed object.\<close>

lemma Model_init_fields:
  "wires (Model_init r w f v) = ''''" "transforms (Model_init r w f v) = ''''"
  "transformBuffer (Model_init r w f v) = ''''" "tag (Model_init r w f v) = 0"
  "wireRadius (Model_init r w f v) = r" "EX_tag (Model_init r w f v) = 0"
  "EX_segment (Model_init r w f v) = 0" "middle (Model_init r w f v) = None"
  by (simp_all add: Model_init_def Let_def)

lemma run_append:
  assumes "run self (xs @ ys) = Inr self'"
  obtains mid where "run self xs = Inr mid" and "run mid ys = Inr self'"
  using assms
proof (induction xs arbitrary: self thesis)
  case Nil
  then show ?case by simp
next
  case (Cons c cs)
  from Cons.prems(2) obtain s1 where s1: "step self c = Inr s1" and r: "run s1 (cs @ ys) = Inr self'"
    by (cases "step self c") auto
  from Cons.IH [OF _ r] obtain mid where "run s1 cs = Inr mid" "run mid ys = Inr self'"
    by blast
  with s1 Cons.prems(1) show ?case by simp
qed

text \<open>Append calls leave the excitation point alone.\<close>

lemma run_no_feed:
  assumes "run self calls = Inr self'" and "FeedAtStart \<notin> set calls" and "FeedAtMiddle \<notin> set calls"
  shows "EX_tag self' = EX_tag self \<and> EX_segment self' = EX_segment self"
  using assms
proof (induction calls arbitrary: self)
  case Nil
  then show ?case by simp
next
  case (Cons c cs)
  from Cons.prems(1) obtain mid where
    mid: "step self c = Inr mid" and rest: "run mid cs = Inr self'"
    by (rule run_Cons_Inr)
  from Cons.prems(2,3) have "is_append c" by (cases c) auto
  from step_append [OF mid this] Cons.IH [OF rest] Cons.prems(2,3) show ?case by simp
qed

section \<open>Properties of the field formats\<close>

lemma digit_char_digits: "d < 10 \<Longrightarrow> digit_char d \<in> digits"
proof -
  assume "d < 10"
  then have "d \<in> {0, 1, 2, 3, 4, 5, 6, 7, 8, 9}" by auto
  then show ?thesis by (auto simp: digit_char_def digits_def)
qed

lemma str_nat_digits: "set (str_nat n) \<subseteq> digits"
proof (induction n rule: str_nat.induct)
  case (1 n)
  show ?case
  proof (cases "n < 10")
    case True
    then show ?thesis by (simp add: str_nat_digit digit_char_digits)
  next
    case False
    with 1 have "set (str_nat (n div 10)) \<subseteq> digits" by simp
    moreover have "digit_char (n mod 10) \<in> digits" by (simp add: digit_char_digits)
    ultimately show ?thesis using False by (simp add: str_nat_step)
  qed
qed

lemma str_nat_nonempty: "str_nat n \<noteq> []"
  by (cases "n < 10") (simp_all add: str_nat_digit str_nat_step)

lemma length_str_nat_le: "0 < k \<Longrightarrow> length (str_nat n) \<le> k \<longleftrightarrow> n < 10 ^ k"
proof (induction n arbitrary: k rule: str_nat.induct)
  case (1 n)
  show ?case
  proof (cases "n < 10")
    case True
    have "(10::nat) ^ 1 \<le> 10 ^ k" using 1(2) by (intro power_increasing) auto
    with True 1(2) show ?thesis by (simp add: str_nat_digit)
  next
    case False
    show ?thesis
    proof (cases "k = 1")
      case True
      with False str_nat_nonempty [of "n div 10"] show ?thesis
        by (simp add: str_nat_step)
    next
      case k: False
      with 1(2) obtain j where j: "k = Suc j" "0 < j" by (cases k) auto
      from 1(1) [OF False j(2)] have "length (str_nat (n div 10)) \<le> j \<longleftrightarrow> n div 10 < 10 ^ j" .
      moreover have "n div 10 < 10 ^ j \<longleftrightarrow> n < 10 ^ Suc j"
        by (simp add: div_less_iff_less_mult mult.commute)
      ultimately show ?thesis using False j by (simp add: str_nat_step)
    qed
  qed
qed


lemma length_rjust: "length (rjust n c s) = max n (length s)"
  by (simp add: rjust_def)

lemma set_rjust: "set (rjust n c s) \<subseteq> insert c (set s)"
  by (auto simp: rjust_def)

lemma length_str_int_le_6: "length (str_int i) \<le> 6 \<longleftrightarrow> - 99999 \<le> i \<and> i \<le> 999999"
proof (cases "i < 0")
  case True
  have "length (str_nat (nat (- i))) \<le> 5 \<longleftrightarrow> nat (- i) < 10 ^ 5"
    by (rule length_str_nat_le) simp
  with True show ?thesis by (simp add: str_int_def) linarith
next
  case False
  have "length (str_nat (nat i)) \<le> 6 \<longleftrightarrow> nat i < 10 ^ 6"
    by (rule length_str_nat_le) simp
  with False show ?thesis by (simp add: str_int_def) linarith
qed

lemma str_int_chars: "set (str_int i) \<subseteq> insert (CHR ''-'') digits"
  using str_nat_digits by (auto simp: str_int_def)

lemma newline_not_digit: "CHR 0x0A \<notin> digits"
  by (simp add: digits_def)

lemma dec_chars: "set (dec i) \<subseteq> insert (CHR '' '') (insert (CHR ''-'') digits)"
  using set_rjust [of 6 "CHR '' ''" "str_int (trunc i)"] str_int_chars [of "trunc i"]
  by (auto simp: dec_def)

lemma newline_not_in_dec: "CHR 0x0A \<notin> set (dec i)"
  using dec_chars [of i] newline_not_digit by auto

lemma norm_down_bounds:
  "1 \<le> a \<Longrightarrow> a < 10 ^ Suc n \<Longrightarrow>
     1 \<le> fst (norm_down a e) \<and> fst (norm_down a e) < 10
     \<and> e \<le> snd (norm_down a e) \<and> snd (norm_down a e) \<le> e + int n"
proof (induction n arbitrary: a e)
  case 0
  then show ?case by (simp add: norm_down_stop)
next
  case (Suc n)
  show ?case
  proof (cases "a < 10")
    case True
    with Suc.prems show ?thesis by (simp add: norm_down_stop)
  next
    case False
    then have step: "norm_down a e = norm_down (a / 10) (e + 1)" by (simp add: norm_down_step)
    from False have "1 \<le> a / 10" by simp
    moreover from Suc.prems(2) have "a / 10 < 10 ^ Suc n" by simp
    ultimately have "1 \<le> fst (norm_down (a / 10) (e + 1)) \<and> fst (norm_down (a / 10) (e + 1)) < 10
     \<and> e + 1 \<le> snd (norm_down (a / 10) (e + 1))
     \<and> snd (norm_down (a / 10) (e + 1)) \<le> e + 1 + int n"
      by (rule Suc.IH)
    then show ?thesis by (simp add: step)
  qed
qed

lemma norm_up_bounds:
  "0 < a \<Longrightarrow> a < 1 \<Longrightarrow> 1 \<le> a * 10 ^ n \<Longrightarrow>
     1 \<le> fst (norm_up a e) \<and> fst (norm_up a e) < 10
     \<and> e - int n \<le> snd (norm_up a e) \<and> snd (norm_up a e) < e"
proof (induction n arbitrary: a e)
  case 0
  then show ?case by simp
next
  case (Suc n)
  from Suc.prems have step: "norm_up a e = norm_up (a * 10) (e - 1)" by (simp add: norm_up_step)
  show ?case
  proof (cases "a * 10 < 1")
    case True
    from Suc.prems(1) have "0 < a * 10" by simp
    moreover note True
    moreover from Suc.prems(3) have "1 \<le> a * 10 * 10 ^ n" by (simp add: mult.assoc)
    ultimately have "1 \<le> fst (norm_up (a * 10) (e - 1)) \<and> fst (norm_up (a * 10) (e - 1)) < 10
     \<and> e - 1 - int n \<le> snd (norm_up (a * 10) (e - 1)) \<and> snd (norm_up (a * 10) (e - 1)) < e - 1"
      by (rule Suc.IH)
    then show ?thesis by (simp add: step)
  next
    case False
    with Suc.prems(2) show ?thesis by (simp add: step norm_up_stop)
  qed
qed

lemma sci_parts_bounds:
  assumes "a = 0 \<or> (1 / 10 ^ N \<le> a \<and> a < 10 ^ N)" and "0 < N"
  shows "fst (sci_parts a) < 1000000 \<and> \<bar>snd (sci_parts a)\<bar> \<le> int N"
proof (cases "a = 0")
  case True
  then show ?thesis by (simp add: sci_parts_def)
next
  case False
  with assms have lo: "1 / 10 ^ N \<le> a" and hi: "a < 10 ^ N" by auto
  from assms(2) obtain M where N: "N = Suc M" by (cases N) auto
  define p where "p = (if 1 \<le> a then norm_down a 0 else norm_up a 0)"
  have p: "1 \<le> fst p \<and> fst p < 10 \<and> - int N \<le> snd p \<and> snd p \<le> int M"
  proof (cases "1 \<le> a")
    case True
    from hi have "a < 10 ^ Suc M" by (simp only: N)
    from norm_down_bounds [OF True this, of 0] True show ?thesis by (simp add: p_def)
  next
    case b: False
    have "(0::real) < 1 / 10 ^ N" by simp
    with lo have "0 < a" by linarith
    moreover from b have "a < 1" by simp
    moreover have "1 \<le> a * 10 ^ N"
    proof -
      have "(0::real) < 10 ^ N" by simp
      with lo show ?thesis by (simp only: pos_divide_le_eq)
    qed
    ultimately have "1 \<le> fst (norm_up a 0) \<and> fst (norm_up a 0) < 10
       \<and> 0 - int N \<le> snd (norm_up a 0) \<and> snd (norm_up a 0) < 0"
      by (rule norm_up_bounds)
    with b show ?thesis by (simp add: p_def)
  qed
  define d where "d = nat (round_half_even (fst p * 100000))"
  have eq: "sci_parts a = (if 1000000 \<le> d then (100000, snd p + 1) else (d, snd p))"
    using False by (simp add: sci_parts_def p_def d_def Let_def split_beta)
  from p N show ?thesis by (auto simp: eq)
qed

lemma zero_digit: "CHR ''0'' \<in> digits"
  by (simp add: digits_def)

lemma format_E5_parts:
  "format_E5 a =
     take 1 (rjust 6 (CHR ''0'') (str_nat (fst (sci_parts a)))) @ ''.''
     @ drop 1 (rjust 6 (CHR ''0'') (str_nat (fst (sci_parts a)))) @ ''E''
     @ (if snd (sci_parts a) < 0 then ''-'' else ''+'')
     @ rjust 2 (CHR ''0'') (str_nat (nat \<bar>snd (sci_parts a)\<bar>))"
  by (simp add: format_E5_def Let_def split_beta)

lemma rjust_digits: "set (rjust n (CHR ''0'') (str_nat k)) \<subseteq> digits"
  using set_rjust [of n "CHR ''0''" "str_nat k"] str_nat_digits [of k] zero_digit by auto

lemma format_E5_chars:
  "set (format_E5 a) \<subseteq> insert (CHR ''.'') (insert (CHR ''E'') (insert (CHR ''+'')
      (insert (CHR ''-'') digits)))"
proof -
  have "set (take 1 (rjust 6 (CHR ''0'') (str_nat (fst (sci_parts a))))) \<subseteq> digits"
    using rjust_digits set_take_subset by (rule_tac order_trans [rotated])
  moreover have "set (drop 1 (rjust 6 (CHR ''0'') (str_nat (fst (sci_parts a))))) \<subseteq> digits"
    using rjust_digits set_drop_subset by (rule_tac order_trans [rotated])
  moreover note rjust_digits [of 2 "nat \<bar>snd (sci_parts a)\<bar>"]
  ultimately show ?thesis
    by (subst format_E5_parts) auto
qed

lemma newline_not_in_sci: "CHR 0x0A \<notin> set (sci f)"
proof -
  have "set (sci f) \<subseteq> insert (CHR '' '') (insert (CHR ''-'') (set (format_E5 \<bar>fval f\<bar>)))"
    using set_rjust [of 13 "CHR '' ''"
            "(if sign_bit f then ''-'' else '' '') @ format_E5 \<bar>fval f\<bar>"]
    by (auto simp: sci_def split: if_splits)
  with format_E5_chars [of "\<bar>fval f\<bar>"] newline_not_digit show ?thesis by auto
qed

lemma format_E5_shape:
  assumes "a = 0 \<or> (1 / 10 ^ N \<le> a \<and> a < 10 ^ N)" and "0 < N" and "N \<le> 999"
  shows "E5_shape (format_E5 a)"
proof -
  define ds where "ds = rjust 6 (CHR ''0'') (str_nat (fst (sci_parts a)))"
  define xs where "xs = rjust 2 (CHR ''0'') (str_nat (nat \<bar>snd (sci_parts a)\<bar>))"
  define sg where "sg = (if snd (sci_parts a) < 0 then CHR ''-'' else CHR ''+'')"
  from sci_parts_bounds [OF assms(1,2)] assms(3)
  have d: "fst (sci_parts a) < 10 ^ 6" and e: "nat \<bar>snd (sci_parts a)\<bar> < 10 ^ 3" by auto
  have "length (str_nat (fst (sci_parts a))) \<le> 6"
    using d by (simp add: length_str_nat_le)
  then have lds: "length ds = 6" by (simp add: ds_def length_rjust)
  have "length (str_nat (nat \<bar>snd (sci_parts a)\<bar>)) \<le> 3"
    using e by (simp add: length_str_nat_le)
  then have lxs: "length xs = 2 \<or> length xs = 3" by (auto simp: xs_def length_rjust)
  have dds: "set ds \<subseteq> digits" unfolding ds_def by (rule rjust_digits)
  have dxs: "set xs \<subseteq> digits" unfolding xs_def by (rule rjust_digits)
  from lds obtain d0 d1 d2 d3 d4 d5 where ds: "ds = [d0, d1, d2, d3, d4, d5]"
    by (auto simp: length_Suc_conv eval_nat_numeral)
  have eq: "format_E5 a = [d0, CHR ''.'', d1, d2, d3, d4, d5, CHR ''E'', sg] @ xs"
    by (subst format_E5_parts) (simp add: ds [unfolded ds_def] xs_def sg_def)
  from dds lxs dxs show ?thesis
    by (auto simp: eq E5_shape_def ds sg_def eval_nat_numeral)
qed


lemma is_record_newline: "is_record newline"
  by (simp add: is_record_def newline_def)

lemma is_record_Cons: "c \<noteq> CHR 0x0A \<Longrightarrow> is_record s \<Longrightarrow> is_record (c # s)"
  by (auto simp: is_record_def)

lemma is_record_append: "CHR 0x0A \<notin> set a \<Longrightarrow> is_record s \<Longrightarrow> is_record (a @ s)"
  by (induction a) (auto simp: is_record_Cons)

lemmas is_record_intros =
  is_record_newline is_record_Cons is_record_append newline_not_in_dec newline_not_in_sci

lemma cards_are_records:
  "is_record (gw t s x1 y1 z1 x2 y2 z2 r)"
  "is_record (gh t s p h a1 b1 a2 b2 r)"
  "is_record (ga t s ar sa ea r)"
  "is_record (gm rX rY rZ tX tY tZ t)"
  "is_record ge"
  "is_record (fr st sz n)"
  "is_record (ex t s)"
  "is_record rp"
  "is_record en"
  by (simp_all add: card_eqs is_record_intros)

lemma records_acc_line:
  "CHR 0x0A \<notin> set body \<Longrightarrow>
     records_acc acc (body @ CHR 0x0A # rest) = (acc @ body @ [CHR 0x0A]) # records_acc [] rest"
  by (induction body arbitrary: acc) auto

lemma records_acc_record:
  assumes "is_record l"
  shows "records_acc [] (l @ rest) = l # records_acc [] rest"
proof -
  from assms have l: "l = butlast l @ [CHR 0x0A]" and n: "CHR 0x0A \<notin> set (butlast l)"
    by (auto simp: is_record_def dest: append_butlast_last_id)
  have "records_acc [] (butlast l @ CHR 0x0A # rest) = (butlast l @ [CHR 0x0A]) # records_acc [] rest"
    using records_acc_line [OF n, of "[]" rest] by simp
  with l show ?thesis by (metis append.assoc append_Cons append_Nil)
qed

lemma records_concat: "\<forall>l\<in>set ls. is_record l \<Longrightarrow> records (concat ls) = ls"
  unfolding records_def
  by (induction ls) (simp_all add: records_acc_record)

lemma trunc_toward_zero:
  "\<bar>of_int (trunc (PyFloat g))\<bar> \<le> \<bar>g\<bar> \<and> \<bar>g - of_int (trunc (PyFloat g))\<bar> < 1"
  by (cases "0 \<le> g") (simp_all, linarith+)

lemma length_dec_6: "length (dec i) = 6 \<longleftrightarrow> - 99999 \<le> trunc i \<and> trunc i \<le> 999999"
  using length_str_int_le_6 [of "trunc i"] by (auto simp: dec_def length_rjust)

lemma length_sci:
  assumes "fval f = 0 \<or> (1 / 10 ^ N \<le> \<bar>fval f\<bar> \<and> \<bar>fval f\<bar> < 10 ^ N)"
    and "0 < N" and "N \<le> 999"
  shows "E5_shape (format_E5 \<bar>fval f\<bar>) \<and> length (sci f) = 13"
proof -
  from assms(1)
  have "\<bar>fval f\<bar> = 0 \<or> (1 / 10 ^ N \<le> \<bar>fval f\<bar> \<and> \<bar>fval f\<bar> < 10 ^ N)" by auto
  from format_E5_shape [OF this assms(2,3)] have s: "E5_shape (format_E5 \<bar>fval f\<bar>)" .
  then have "length (format_E5 \<bar>fval f\<bar>) = 11 \<or> length (format_E5 \<bar>fval f\<bar>) = 12"
    by (simp add: E5_shape_def)
  then have "length (sci f) = 13" by (auto simp: sci_def length_rjust)
  with s show ?thesis ..
qed

text \<open>The text of a wire card and of the trailing cards of an example.\<close>

lemma trailing_cards_text:
  "ge @ ex 0 0 @ fr (Float 1089) (Float 0.05) (PyFloat 40) @ rp @ en =
     ''GE     0     0  0.00000E+00  0.00000E+00  0.00000E+00  0.00000E+00  0.00000E+00  0.00000E+00  0.00000E+00\<newline>EX     0     0     0     0  1.00000E+00  0.00000E+00  0.00000E+00  0.00000E+00  0.00000E+00  0.00000E+00\<newline>FR     0    40     0     0  1.08900E+03  5.00000E-02\<newline>RP     0    37    37     0  0.00000E+00  0.00000E+00  1.00000E+01  1.00000E+01\<newline>EN\<newline>''"
  by (simp add: card_eqs newline_def sci_0 dec_0 format_eval)

lemma wire_card_text:
  "gw 1 24 (Float 0) (Float 0) (Float 0) (Float 0) (Float 0) (Float 0.25) (Float 0.001) =
     ''GW     1    24  0.00000E+00  0.00000E+00  0.00000E+00  0.00000E+00  0.00000E+00  2.50000E-01  1.00000E-03\<newline>''"
  by (simp add: card_eqs newline_def sci_0 dec_0 format_eval)

lemma placing_is_append: "placing c = Some p \<Longrightarrow> is_append c"
  by (cases c) auto

text \<open>Every card is a mnemonic, integer fields, real fields and the newline.\<close>

lemma cards_layout:
  "gw t s x1 y1 z1 x2 y2 z2 r =
     card_layout ''GW'' [PyInt t, PyInt s] [x1, y1, z1, x2, y2, z2, r]"
  "gh t s p h a1 b1 a2 b2 r =
     card_layout ''GH'' [PyInt t, PyInt s] [p, h, a1, b1, a2, b2, r]"
  "ga t s ar sa ea r =
     card_layout ''GA'' [PyInt t, PyInt s] [ar, sa, ea, r, Float 0, Float 0, Float 0]"
  "gm rX rY rZ tX tY tZ t =
     card_layout ''GM'' [PyInt 0, PyInt 0] [rX, rY, rZ, tX, tY, tZ, Float (of_int t)]"
  "ge = card_layout ''GE'' [PyInt 0, PyInt 0]
          [Float 0, Float 0, Float 0, Float 0, Float 0, Float 0, Float 0]"
  "fr st sz n = card_layout ''FR'' [PyInt 0, n, PyInt 0, PyInt 0] [st, sz]"
  "ex t s = card_layout ''EX'' [PyInt 0, PyInt t, PyInt s, PyInt 0]
              [Float 1, Float 0, Float 0, Float 0, Float 0, Float 0]"
  "rp = card_layout ''RP'' [PyInt 0, PyInt 37, PyInt 37, PyInt 0]
          [Float 0, Float 0, Float 10, Float 10]"
  "en = card_layout ''EN'' [] []"
  by (simp_all add: card_eqs card_layout_def)

text \<open>Blocks of equal width stand at the multiples of the width.\<close>

lemma length_concat_blocks:
  "\<forall>b\<in>set bs. length b = w \<Longrightarrow> length (concat bs) = w * length bs"
  by (induction bs) simp_all

lemma concat_blocks:
  assumes "\<forall>b\<in>set bs. length b = w" and "j < length bs"
  shows "take w (drop (w * j) (concat bs @ rest)) = bs ! j"
  using assms
proof (induction bs arbitrary: j)
  case Nil
  then show ?case by simp
next
  case (Cons b bs)
  from Cons.prems(1) have b: "length b = w" and bs: "\<forall>b\<in>set bs. length b = w" by simp_all
  show ?case
  proof (cases j)
    case 0
    with b show ?thesis by simp
  next
    case (Suc i)
    with Cons.prems(2) have i: "i < length bs" by simp
    have "drop (w * Suc i) (concat (b # bs) @ rest) = drop (w * i) (concat bs @ rest)"
      using b by simp
    with Cons.IH [OF bs i] Suc show ?thesis by simp
  qed
qed

lemma sci_sign:
  "sci f = replicate (12 - length (format_E5 \<bar>fval f\<bar>)) (CHR '' '')
           @ (if fval f < 0 \<or> f = NegZero then ''-'' else '' '') @ format_E5 \<bar>fval f\<bar>"
  by (cases f) (simp_all add: sci_def rjust_def)

lemma card_layout_columns:
  assumes "\<forall>i\<in>set ints. length (dec i) = 6" and "\<forall>f\<in>set reals. length (sci f) = 13"
    and "length mnemonic = 2"
  shows "\<forall>j<length ints.
           take 6 (drop (2 + 6 * j) (card_layout mnemonic ints reals)) = dec (ints ! j)"
    and "\<forall>j<length reals.
           take 13 (drop (2 + 6 * length ints + 13 * j) (card_layout mnemonic ints reals))
             = sci (reals ! j)"
    and "length (card_layout mnemonic ints reals) = 2 + 6 * length ints + 13 * length reals + 1"
    and "drop (2 + 6 * length ints + 13 * length reals) (card_layout mnemonic ints reals)
           = newline"
proof -
  have di: "\<forall>b\<in>set (map dec ints). length b = 6" using assms(1) by simp
  have dr: "\<forall>b\<in>set (map sci reals). length b = 13" using assms(2) by simp
  have li: "length (concat (map dec ints)) = 6 * length ints"
    using length_concat_blocks [OF di] by simp
  have lr: "length (concat (map sci reals)) = 13 * length reals"
    using length_concat_blocks [OF dr] by simp
  show "\<forall>j<length ints.
           take 6 (drop (2 + 6 * j) (card_layout mnemonic ints reals)) = dec (ints ! j)"
  proof (intro allI impI)
    fix j assume j: "j < length ints"
    then have "j < length (map dec ints)" by simp
    from concat_blocks [OF di this, of "concat (map sci reals) @ newline"] j assms(3)
    show "take 6 (drop (2 + 6 * j) (card_layout mnemonic ints reals)) = dec (ints ! j)"
      by (simp add: card_layout_def)
  qed
  show "\<forall>j<length reals.
           take 13 (drop (2 + 6 * length ints + 13 * j) (card_layout mnemonic ints reals))
             = sci (reals ! j)"
  proof (intro allI impI)
    fix j assume j: "j < length reals"
    then have "j < length (map sci reals)" by simp
    from concat_blocks [OF dr this, of newline] j assms(3) li
    show "take 13 (drop (2 + 6 * length ints + 13 * j) (card_layout mnemonic ints reals))
             = sci (reals ! j)"
      by (simp add: card_layout_def)
  qed
  show "length (card_layout mnemonic ints reals) = 2 + 6 * length ints + 13 * length reals + 1"
    using li lr assms(3) by (simp add: card_layout_def newline_def)
  show "drop (2 + 6 * length ints + 13 * length reals) (card_layout mnemonic ints reals)
           = newline"
    using li lr assms(3) by (simp add: card_layout_def)
qed

lemma card_layout_is_record:
  "CHR 0x0A \<notin> set mnemonic \<Longrightarrow> is_record (card_layout mnemonic ints reals)"
proof -
  assume m: "CHR 0x0A \<notin> set mnemonic"
  have "CHR 0x0A \<notin> set (concat (map dec ints))" using newline_not_in_dec by auto
  moreover have "CHR 0x0A \<notin> set (concat (map sci reals))" using newline_not_in_sci by auto
  ultimately show ?thesis
    using m unfolding card_layout_def by (intro is_record_append is_record_newline)
qed

text \<open>The records of the finalized deck, one card each.\<close>

lemma primitive_record_is_record: "is_append c \<Longrightarrow> is_record (primitive_record r T c)"
  by (cases c) (simp_all add: cards_are_records)

lemma gm_text_is_record: "is_record (gm_text g)"
  by (cases g) (simp add: cards_are_records)

lemma deck_records:
  assumes "run (Model_init r w fq v) calls = Inr self'"
  shows "records (getText self' st sz n) =
           map (\<lambda>i. primitive_record r (int i + 1) (appends calls ! i))
               [0..<length (appends calls)]
           @ map gm_text (transform_log 0 [] calls)
           @ [ge, ex (EX_tag self') (EX_segment self'), fr st sz n, rp, en]"
proof -
  let ?deck = "map (\<lambda>i. primitive_record r (int i + 1) (appends calls ! i))
               [0..<length (appends calls)]
           @ map gm_text (transform_log 0 [] calls)
           @ [ge, ex (EX_tag self') (EX_segment self'), fr st sz n, rp, en]"
  from run_invariant [OF assms, of "[]"]
  have deck: "getText self' st sz n = concat ?deck"
    by (simp add: getText_eq Model_init_fields numbered_records_def gm_texts_def)
  have "\<forall>i<length (appends calls). is_append (appends calls ! i)"
  proof (intro allI impI)
    fix i assume "i < length (appends calls)"
    then have "appends calls ! i \<in> set (appends calls)" by (rule nth_mem)
    then show "is_append (appends calls ! i)" by (simp add: appends_def)
  qed
  then have "\<forall>l\<in>set ?deck. is_record l"
    by (auto simp: primitive_record_is_record gm_text_is_record cards_are_records)
  then have "records (concat ?deck) = ?deck" by (rule records_concat)
  with deck show ?thesis by simp
qed

section \<open>Unit conversion: the wire gauge\<close>

text \<open>
  C7, as the code has it: for every integer gauge \<open>n\<close> from -3 to 40 the conversion
  returns \<open>exp (2.1104 - 0.11594 n) \<times> 10\<^sup>-\<^sup>3\<close>, which is the wire diameter in metres
  (the docstring says so, and the caller halves it to get the radius). The returned
  value is positive, so it is never the radius, which is half of it.
\<close>

theorem AWG_returns_diameter:
  "-3 \<le> n \<Longrightarrow> n \<le> 40 \<Longrightarrow>
     AWG (PyNum (PyInt n)) = Inr (exp (2.1104 - 0.11594 * of_int n) * 0.001) \<and>
     AWG (PyNum (PyInt n)) \<noteq> Inr (exp (2.1104 - 0.11594 * of_int n) * 0.001 / 2)"
  by simp

theorem AWG_returns_diameter_witness:
  "(-3::int) \<le> 14 \<and> (14::int) \<le> 40 \<and>
     AWG (PyNum (PyInt 14)) = Inr (exp (2.1104 - 0.11594 * of_int 14) * 0.001) \<and>
     AWG (PyNum (PyInt 14)) \<noteq> Inr (exp (2.1104 - 0.11594 * of_int 14) * 0.001 / 2)"
  using AWG_returns_diameter [of 14] by simp

text \<open>For gauge 0 the returned value is not half of the formula's value.\<close>

theorem AWG_radius_counterexample:
  "AWG (PyNum (PyInt 0)) \<noteq> Inr (exp (2.1104 - 0.11594 * of_int 0) * 0.001 / 2)"
  by simp

text \<open>
  C8: an argument that is not a Python \<^verbatim>\<open>int\<close> is rejected with the \<^verbatim>\<open>TypeError\<close>, an
  integer outside -3..40 with the \<^verbatim>\<open>ValueError\<close>; whenever a value is returned the
  argument was an integer in range, so nothing is clamped.
\<close>

theorem AWG_rejects_invalid:
  "((\<forall>n. v \<noteq> PyNum (PyInt n)) \<longrightarrow> AWG v = Inl (TypeError ''AWG must be an integer'')) \<and>
   ((n < -3 \<or> 40 < n) \<longrightarrow>
      AWG (PyNum (PyInt n)) = Inl (ValueError ''AWG must be from -3 to 40'')) \<and>
   (\<forall>d. AWG v = Inr d \<longrightarrow> (\<exists>k. v = PyNum (PyInt k) \<and> -3 \<le> k \<and> k \<le> 40))"
proof (intro conjI impI allI)
  assume "\<forall>n. v \<noteq> PyNum (PyInt n)"
  then show "AWG v = Inl (TypeError ''AWG must be an integer'')"
    by (cases v rule: AWG.cases) simp_all
next
  assume "n < -3 \<or> 40 < n"
  then show "AWG (PyNum (PyInt n)) = Inl (ValueError ''AWG must be from -3 to 40'')"
    by auto
next
  fix d assume "AWG v = Inr d"
  then show "\<exists>k. v = PyNum (PyInt k) \<and> -3 \<le> k \<and> k \<le> 40"
    by (cases v rule: AWG.cases) (auto split: if_splits)
qed

theorem AWG_rejects_invalid_witness:
  "AWG (PyNum (PyFloat 14.5)) = Inl (TypeError ''AWG must be an integer'') \<and>
   AWG (PyNum (PyInt 41)) = Inl (ValueError ''AWG must be from -3 to 40'') \<and>
   AWG (PyNum (PyInt (-4))) = Inl (ValueError ''AWG must be from -3 to 40'')"
  using AWG_rejects_invalid [of "PyNum (PyFloat 14.5)" 41]
        AWG_rejects_invalid [of "PyNum (PyInt 14)" "-4"]
  by simp

section \<open>Construction\<close>

text \<open>
  C10: with non-zero \<open>W\<close> and \<open>F\<close>, giving both stores both unchanged; giving neither
  leaves both \<^verbatim>\<open>None\<close>; giving exactly one derives the other as \<open>V \<times> 3e8\<close> divided by
  the one given.
\<close>

theorem Model_init_wavelength_frequency:
  "W \<noteq> 0 \<Longrightarrow> F \<noteq> 0 \<Longrightarrow>
     (wavelength (Model_init r (Some W) (Some F) V) = Some W \<and>
      frequency (Model_init r (Some W) (Some F) V) = Some F) \<and>
     (wavelength (Model_init r None None V) = None \<and>
      frequency (Model_init r None None V) = None) \<and>
     (wavelength (Model_init r (Some W) None V) = Some W \<and>
      frequency (Model_init r (Some W) None V) = Some (V * 300000000 / W)) \<and>
     (frequency (Model_init r None (Some F) V) = Some F \<and>
      wavelength (Model_init r None (Some F) V) = Some (V * 300000000 / F))"
  by (simp add: Model_init_def)

theorem Model_init_wavelength_frequency_witness:
  "(2::real) \<noteq> 0 \<and> (5::real) \<noteq> 0 \<and>
     wavelength (Model_init (Float 1) (Some 2) (Some 5) 1) = Some 2 \<and>
     frequency (Model_init (Float 1) (Some 2) (Some 5) 1) = Some 5 \<and>
     wavelength (Model_init (Float 1) None None 1) = None \<and>
     frequency (Model_init (Float 1) None None 1) = None \<and>
     frequency (Model_init (Float 1) (Some 2) None 1) = Some 150000000 \<and>
     wavelength (Model_init (Float 1) None (Some 5) 1) = Some 60000000"
  using Model_init_wavelength_frequency [of 2 5 "Float 1" 1] by simp

section \<open>Tags and records of a call sequence\<close>

text \<open>
  C1: after any successful sequence of calls on a freshly constructed model, the tag
  counter is the number \<open>k\<close> of append calls made, and the primitive records emitted
  are, in call order, the records of those calls with the tags 1, 2, \<dots>, \<open>k\<close>: the
  \<open>i\<close>-th append call (counting from 0) carries tag \<open>i + 1\<close>, whatever its kind, and
  feed calls in between change nothing.
\<close>

theorem tags_are_sequential:
  assumes "run (Model_init r w f v) calls = Inr self'"
  shows "tag self' = int (length (appends calls)) \<and>
         wires self' =
           concat (map (\<lambda>i. primitive_record r (int i + 1) (appends calls ! i))
                       [0..<length (appends calls)])"
  using run_invariant [OF assms, of "[]"]
  by (simp add: Model_init_fields numbered_records_def)

theorem tags_are_sequential_witness:
  "tag (projr (run (Model_init (Float 0.001) None None 1)
          [AddWire 24 \<lparr>x = Float 0, y = Float 0, z = Float 0\<rparr> \<lparr>x = Float 0, y = Float 0, z = Float 0.25\<rparr>,
           FeedAtStart,
           AddHelix 8 \<lparr>x = Float 0, y = Float 0, z = Float 0.25\<rparr> [''length'' \<mapsto> Float 2, ''height'' \<mapsto> Float 0.1]
             (Some \<lparr>rx = Float 10, ry = Float 20, rz = Float 180\<rparr>) (Some \<lparr>x = Float 1, y = Float 3, z = Float 2\<rparr>),
           AddArc 4 (Float 0.5) (Float 0) (Float 90) \<lparr>rx = Float 10, ry = Float 20, rz = Float 180\<rparr> \<lparr>x = Float 1, y = Float 3, z = Float 2\<rparr>])) = 3 \<and>
   wires (projr (run (Model_init (Float 0.001) None None 1)
          [AddWire 24 \<lparr>x = Float 0, y = Float 0, z = Float 0\<rparr> \<lparr>x = Float 0, y = Float 0, z = Float 0.25\<rparr>,
           FeedAtStart,
           AddHelix 8 \<lparr>x = Float 0, y = Float 0, z = Float 0.25\<rparr> [''length'' \<mapsto> Float 2, ''height'' \<mapsto> Float 0.1]
             (Some \<lparr>rx = Float 10, ry = Float 20, rz = Float 180\<rparr>) (Some \<lparr>x = Float 1, y = Float 3, z = Float 2\<rparr>),
           AddArc 4 (Float 0.5) (Float 0) (Float 90) \<lparr>rx = Float 10, ry = Float 20, rz = Float 180\<rparr> \<lparr>x = Float 1, y = Float 3, z = Float 2\<rparr>])) =
     gw 1 24 (Float 0) (Float 0) (Float 0) (Float 0) (Float 0) (Float 0.25) (Float 0.001)
     @ gh 2 8 (Float 0.1) (Float 0.1) (Float (2 / pi / 2)) (Float (2 / pi / 2))
          (Float (2 / pi / 2)) (Float (2 / pi / 2)) (Float 0.001)
     @ ga 3 4 (Float 0.5) (Float 0) (Float 90) (Float 0.001)"
proof -
  let ?calls = "[AddWire 24 \<lparr>x = Float 0, y = Float 0, z = Float 0\<rparr> \<lparr>x = Float 0, y = Float 0, z = Float 0.25\<rparr>,
           FeedAtStart,
           AddHelix 8 \<lparr>x = Float 0, y = Float 0, z = Float 0.25\<rparr> [''length'' \<mapsto> Float 2, ''height'' \<mapsto> Float 0.1]
             (Some \<lparr>rx = Float 10, ry = Float 20, rz = Float 180\<rparr>) (Some \<lparr>x = Float 1, y = Float 3, z = Float 2\<rparr>),
           AddArc 4 (Float 0.5) (Float 0) (Float 90) \<lparr>rx = Float 10, ry = Float 20, rz = Float 180\<rparr> \<lparr>x = Float 1, y = Float 3, z = Float 2\<rparr>]"
  have "\<exists>s. run (Model_init (Float 0.001) None None 1) ?calls = Inr s"
    by (simp add: addWire_eq addArc_eq addHelix_eq feedAtStart_def)
  then obtain s where s: "run (Model_init (Float 0.001) None None 1) ?calls = Inr s" ..
  from tags_are_sequential [OF s] show ?thesis
    unfolding s by (simp add: appends_def upt_rec)
qed

text \<open>
  C2: when the last append call of a successful sequence on a fresh model is an arc or a
  helix, the four restoration records it queued, tagged one past its own tag, are still
  in the deferred buffer after the sequence, and the finalized deck is the primitive
  records, then the emitted transform records, then the five trailing cards. Every
  emitted transform record was written with a tag of at most the highest tag assigned,
  so none carries that tag plus one. (The tag of a transform record is the integer given
  to \<^verbatim>\<open>gm\<close>; the card prints it as a float with six significant digits.)
\<close>

theorem pending_restoration_not_emitted:
  assumes "run (Model_init r w f v) calls = Inr self'"
    and "appends calls \<noteq> []"
    and "placing (last (appends calls)) = Some (rot, tr)"
  shows "tag self' = int (length (appends calls)) \<and>
         transformBuffer self' = gm_texts (restoration rot tr (tag self' + 1)) \<and>
         getText self' start stepSize stepCount =
           numbered_records r 0 (appends calls)
           @ gm_texts (transform_log 0 [] calls)
           @ ge @ ex (EX_tag self') (EX_segment self') @ fr start stepSize stepCount @ rp @ en \<and>
         (\<forall>g \<in> set (transform_log 0 [] calls).
            first_tag g \<le> tag self' \<and> first_tag g \<noteq> tag self' + 1)"
proof -
  note inv = run_invariant [OF assms(1), of "[]", simplified Model_init_fields, simplified]
  from inv have t: "tag self' = int (length (appends calls))" by simp
  have buf: "transformBuffer self' = gm_texts (restoration rot tr (tag self' + 1))"
    using inv pending_log_last [OF assms(2), of 0 "[]"] assms(3) t
    by (simp add: queued_transforms_def)
  have deck: "getText self' start stepSize stepCount =
           numbered_records r 0 (appends calls)
           @ gm_texts (transform_log 0 [] calls)
           @ ge @ ex (EX_tag self') (EX_segment self') @ fr start stepSize stepCount @ rp @ en"
    using inv by (simp add: getText_eq)
  have tags: "\<forall>g \<in> set (transform_log 0 [] calls).
            first_tag g \<le> tag self' \<and> first_tag g \<noteq> tag self' + 1"
  proof
    fix g assume "g \<in> set (transform_log 0 [] calls)"
    from transform_log_tags [OF _ this] t have "first_tag g \<le> tag self'" by simp
    then show "first_tag g \<le> tag self' \<and> first_tag g \<noteq> tag self' + 1" by simp
  qed
  from t buf deck tags show ?thesis by blast
qed

theorem pending_restoration_not_emitted_witness:
  "tag (projr (run (Model_init (Float 0.001) None None 1)
      [AddWire 24 \<lparr>x = Float 0, y = Float 0, z = Float 0\<rparr> \<lparr>x = Float 0, y = Float 0, z = Float 0.25\<rparr>,
       AddArc 4 (Float 0.5) (Float 0) (Float 90) \<lparr>rx = Float 10, ry = Float 20, rz = Float 180\<rparr> \<lparr>x = Float 1, y = Float 3, z = Float 2\<rparr>])) = 2 \<and>
   transformBuffer (projr (run (Model_init (Float 0.001) None None 1)
      [AddWire 24 \<lparr>x = Float 0, y = Float 0, z = Float 0\<rparr> \<lparr>x = Float 0, y = Float 0, z = Float 0.25\<rparr>,
       AddArc 4 (Float 0.5) (Float 0) (Float 90) \<lparr>rx = Float 10, ry = Float 20, rz = Float 180\<rparr> \<lparr>x = Float 1, y = Float 3, z = Float 2\<rparr>])) =
     gm (Float 0) (Float 0) (Float 0) (Float (- 1)) (Float (- 3)) (Float (- 2)) 3 @ gm (Float 0) (Float 0) (Float (- 180)) (Float 0) (Float 0) (Float 0) 3 @ gm (Float 0) (Float (- 20)) (Float 0) (Float 0) (Float 0) (Float 0) 3
     @ gm (Float (- 10)) (Float 0) (Float 0) (Float 0) (Float 0) (Float 0) 3 \<and>
   getText (projr (run (Model_init (Float 0.001) None None 1)
      [AddWire 24 \<lparr>x = Float 0, y = Float 0, z = Float 0\<rparr> \<lparr>x = Float 0, y = Float 0, z = Float 0.25\<rparr>,
       AddArc 4 (Float 0.5) (Float 0) (Float 90) \<lparr>rx = Float 10, ry = Float 20, rz = Float 180\<rparr> \<lparr>x = Float 1, y = Float 3, z = Float 2\<rparr>]))
      (Float 1089) (Float 0.05) (PyFloat 40) =
     gw 1 24 (Float 0) (Float 0) (Float 0) (Float 0) (Float 0) (Float 0.25) (Float 0.001) @ ga 2 4 (Float 0.5) (Float 0) (Float 90) (Float 0.001)
     @ gm (Float 10) (Float 20) (Float 180) (Float 1) (Float 3) (Float 2) 2
     @ ge @ ex 0 0 @ fr (Float 1089) (Float 0.05) (PyFloat 40) @ rp @ en"
proof -
  let ?calls = "[AddWire 24 \<lparr>x = Float 0, y = Float 0, z = Float 0\<rparr> \<lparr>x = Float 0, y = Float 0, z = Float 0.25\<rparr>,
       AddArc 4 (Float 0.5) (Float 0) (Float 90) \<lparr>rx = Float 10, ry = Float 20, rz = Float 180\<rparr> \<lparr>x = Float 1, y = Float 3, z = Float 2\<rparr>]"
  have "\<exists>s. run (Model_init (Float 0.001) None None 1) ?calls = Inr s"
    by simp
  then obtain s where s: "run (Model_init (Float 0.001) None None 1) ?calls = Inr s" ..
  have ne: "appends ?calls \<noteq> []" by (simp add: appends_def)
  have pl: "placing (last (appends ?calls)) =
              Some (\<lparr>rx = Float 10, ry = Float 20, rz = Float 180\<rparr>, \<lparr>x = Float 1, y = Float 3, z = Float 2\<rparr>)"
    by (simp add: appends_def)
  have ex0: "EX_tag s = 0 \<and> EX_segment s = 0"
    using s by (auto simp: addWire_eq addArc_eq Model_init_fields)
  from pending_restoration_not_emitted [OF s ne pl, of "Float 1089" "Float 0.05" "PyFloat 40"] ex0
  show ?thesis
    unfolding s
    by (simp add: appends_def numbered_records_def upt_rec gm_texts_restoration
          own_transforms_def queued_transforms_def gm_texts_placement)
qed

text \<open>
  C3, as the code has it. When an arc or helix with tag \<open>T\<close> is immediately followed by
  another append call, the finalized deck is: all primitive records, among them the
  record of the first element with tag \<open>T\<close> directly followed by the record of the
  second with tag \<open>T + 1\<close>; then all transform records, among them, one after the
  other, the placement transform tagged \<open>T\<close>, the four restoration transforms tagged
  \<open>T + 1\<close> and the placement transform of the second element if it is an arc or a helix;
  then the trailing cards. So the restoration transforms are flushed, in order, right
  after the placement transform, and they come after the second element's primitive
  record, not before it.
\<close>

theorem restoration_follows_placement:
  assumes "run (Model_init r w f v) (pre @ c1 # c2 # post) = Inr self'"
    and "placing c1 = Some (rot, tr)" and "is_append c2"
    and "T = int (length (appends pre)) + 1"
  shows "getText self' start stepSize stepCount =
          (numbered_records r 0 (appends pre)
           @ primitive_record r T c1 @ primitive_record r (T + 1) c2
           @ numbered_records r (T + 1) (appends post))
          @ (gm_texts (transform_log 0 [] pre) @ gm_texts (pending_log 0 [] pre)
             @ gm_text (placement rot tr T)
             @ gm_texts (restoration rot tr (T + 1))
             @ gm_texts (own_transforms c2 (T + 1))
             @ gm_texts (transform_log (T + 1) (queued_transforms c2 (T + 1)) post))
          @ (ge @ ex (EX_tag self') (EX_segment self') @ fr start stepSize stepCount @ rp @ en)"
proof -
  from assms(1) obtain m1 where
    m1: "run (Model_init r w f v) pre = Inr m1" and r1: "run m1 (c1 # c2 # post) = Inr self'"
    by (rule run_append)
  from r1 obtain m2 where m2: "step m1 c1 = Inr m2" and r2: "run m2 (c2 # post) = Inr self'"
    by (rule run_Cons_Inr)
  from r2 obtain m3 where m3: "step m2 c2 = Inr m3" and r3: "run m3 post = Inr self'"
    by (rule run_Cons_Inr)
  note i1 = run_invariant [OF m1, of "[]", simplified Model_init_fields, simplified]
  from i1 assms(4) have t1: "tag m1 + 1 = T" by simp
  note s2 = step_append [OF m2 placing_is_append [OF assms(2)], unfolded t1]
  from s2 have t2: "tag m2 = T" by simp
  note s3 = step_append [OF m3 assms(3), unfolded t2]
  from s3 have b3: "transformBuffer m3 = gm_texts (queued_transforms c2 (T + 1))"
    and t3: "tag m3 = T + 1" by simp_all
  note i3 = run_invariant [OF r3 b3, unfolded t3]
  have own1: "gm_texts (own_transforms c1 T) = gm_text (placement rot tr T)"
    using assms(2) by (simp add: own_transforms_def gm_texts_def)
  have que1: "queued_transforms c1 T = restoration rot tr (T + 1)"
    using assms(2) by (simp add: queued_transforms_def)
  have w: "wires self' = numbered_records r 0 (appends pre)
           @ primitive_record r T c1 @ primitive_record r (T + 1) c2
           @ numbered_records r (T + 1) (appends post)"
    using i1 s2 s3 i3 by simp
  have tr: "transforms self' = gm_texts (transform_log 0 [] pre) @ gm_texts (pending_log 0 [] pre)
             @ gm_text (placement rot tr T)
             @ gm_texts (restoration rot tr (T + 1))
             @ gm_texts (own_transforms c2 (T + 1))
             @ gm_texts (transform_log (T + 1) (queued_transforms c2 (T + 1)) post)"
    using i1 s2 s3 i3 by (simp add: own1 que1)
  from w tr show ?thesis by (simp add: getText_eq)
qed


theorem restoration_follows_placement_witness:
  "getText (projr (run (Model_init (Float 0.001) None None 1)
      ([] @ AddArc 4 (Float 0.5) (Float 0) (Float 90) \<lparr>rx = Float 10, ry = Float 20, rz = Float 180\<rparr> \<lparr>x = Float 1, y = Float 3, z = Float 2\<rparr>
          # AddWire 24 \<lparr>x = Float 0, y = Float 0, z = Float 0\<rparr> \<lparr>x = Float 0, y = Float 0, z = Float 0.25\<rparr> # [])))
      (Float 1089) (Float 0.05) (PyFloat 40) =
     (ga 1 4 (Float 0.5) (Float 0) (Float 90) (Float 0.001) @ gw 2 24 (Float 0) (Float 0) (Float 0) (Float 0) (Float 0) (Float 0.25) (Float 0.001))
     @ (gm (Float 10) (Float 20) (Float 180) (Float 1) (Float 3) (Float 2) 1
        @ (gm (Float 0) (Float 0) (Float 0) (Float (- 1)) (Float (- 3)) (Float (- 2)) 2 @ gm (Float 0) (Float 0) (Float (- 180)) (Float 0) (Float 0) (Float 0) 2 @ gm (Float 0) (Float (- 20)) (Float 0) (Float 0) (Float 0) (Float 0) 2
           @ gm (Float (- 10)) (Float 0) (Float 0) (Float 0) (Float 0) (Float 0) 2))
     @ (ge @ ex 0 0 @ fr (Float 1089) (Float 0.05) (PyFloat 40) @ rp @ en)"
proof -
  let ?arc = "AddArc 4 (Float 0.5) (Float 0) (Float 90) \<lparr>rx = Float 10, ry = Float 20, rz = Float 180\<rparr> \<lparr>x = Float 1, y = Float 3, z = Float 2\<rparr>"
  let ?wire = "AddWire 24 \<lparr>x = Float 0, y = Float 0, z = Float 0\<rparr> \<lparr>x = Float 0, y = Float 0, z = Float 0.25\<rparr>"
  have "\<exists>s. run (Model_init (Float 0.001) None None 1) ([] @ ?arc # ?wire # []) = Inr s"
    by simp
  then obtain s where s: "run (Model_init (Float 0.001) None None 1) ([] @ ?arc # ?wire # []) = Inr s" ..
  have pl: "placing ?arc = Some (\<lparr>rx = Float 10, ry = Float 20, rz = Float 180\<rparr>, \<lparr>x = Float 1, y = Float 3, z = Float 2\<rparr>)"
    by simp
  have ap: "is_append ?wire" by simp
  have t: "(1::int) = int (length (appends [])) + 1" by (simp add: appends_def)
  have ex0: "EX_tag s = 0 \<and> EX_segment s = 0"
    using s by (auto simp: addWire_eq addArc_eq Model_init_fields)
  from restoration_follows_placement [OF s pl ap t, of "Float 1089" "Float 0.05" "PyFloat 40"] ex0
  show ?thesis
    unfolding s
    by (simp add: appends_def gm_texts_restoration own_transforms_def placement_def)
qed

text \<open>
  In the deck of an arc followed by a wire, the wire's record stands before the first
  restoration record, and no occurrence of that restoration record stands before it.
\<close>

theorem restoration_precedes_record_counterexample:
  "\<not> occurs_before (gm (Float 0) (Float 0) (Float 0) (Float (- 1)) (Float (- 3)) (Float (- 2)) 2) (gw 2 24 (Float 0) (Float 0) (Float 0) (Float 0) (Float 0) (Float 0.25) (Float 0.001))
      (records (projr (script (Model_init (Float 0.001) None None 1)
         [AddArc 4 (Float 0.5) (Float 0) (Float 90) \<lparr>rx = Float 10, ry = Float 20, rz = Float 180\<rparr> \<lparr>x = Float 1, y = Float 3, z = Float 2\<rparr>,
          AddWire 24 \<lparr>x = Float 0, y = Float 0, z = Float 0\<rparr> \<lparr>x = Float 0, y = Float 0, z = Float 0.25\<rparr>]
         (Float 1089) (Float 0.05) (PyFloat 40)))) \<and>
   occurs_before (gw 2 24 (Float 0) (Float 0) (Float 0) (Float 0) (Float 0) (Float 0.25) (Float 0.001)) (gm (Float 0) (Float 0) (Float 0) (Float (- 1)) (Float (- 3)) (Float (- 2)) 2)
      (records (projr (script (Model_init (Float 0.001) None None 1)
         [AddArc 4 (Float 0.5) (Float 0) (Float 90) \<lparr>rx = Float 10, ry = Float 20, rz = Float 180\<rparr> \<lparr>x = Float 1, y = Float 3, z = Float 2\<rparr>,
          AddWire 24 \<lparr>x = Float 0, y = Float 0, z = Float 0\<rparr> \<lparr>x = Float 0, y = Float 0, z = Float 0.25\<rparr>]
         (Float 1089) (Float 0.05) (PyFloat 40))))"
proof -
  let ?deck = "[ga 1 4 (Float 0.5) (Float 0) (Float 90) (Float 0.001), gw 2 24 (Float 0) (Float 0) (Float 0) (Float 0) (Float 0) (Float 0.25) (Float 0.001), gm (Float 10) (Float 20) (Float 180) (Float 1) (Float 3) (Float 2) 1,
      gm (Float 0) (Float 0) (Float 0) (Float (- 1)) (Float (- 3)) (Float (- 2)) 2, gm (Float 0) (Float 0) (Float (- 180)) (Float 0) (Float 0) (Float 0) 2, gm (Float 0) (Float (- 20)) (Float 0) (Float 0) (Float 0) (Float 0) 2,
      gm (Float (- 10)) (Float 0) (Float 0) (Float 0) (Float 0) (Float 0) 2, ge, ex 0 0, fr (Float 1089) (Float 0.05) (PyFloat 40), rp, en]"
  have deck: "script (Model_init (Float 0.001) None None 1)
         [AddArc 4 (Float 0.5) (Float 0) (Float 90) \<lparr>rx = Float 10, ry = Float 20, rz = Float 180\<rparr> \<lparr>x = Float 1, y = Float 3, z = Float 2\<rparr>,
          AddWire 24 \<lparr>x = Float 0, y = Float 0, z = Float 0\<rparr> \<lparr>x = Float 0, y = Float 0, z = Float 0.25\<rparr>]
         (Float 1089) (Float 0.05) (PyFloat 40) = Inr (concat ?deck)"
    by (simp add: script_def getText_eq addArc_eq addWire_eq Model_init_fields)
  have recs: "records (concat ?deck) = ?deck"
    by (rule records_concat) (simp add: cards_are_records)
  have GA: "\<And>a b c d e f g. ga a b c d e f \<noteq> gw 2 24 (Float 0) (Float 0) (Float 0) (Float 0) (Float 0) (Float 0.25) (Float 0.001)"
           "\<And>a b c d e f g. ga a b c d e f \<noteq> gm (Float 0) (Float 0) (Float 0) (Float (- 1)) (Float (- 3)) (Float (- 2)) 2"
    by (simp_all add: ga_eq gw_def gm_eq)
  have GM: "\<And>a b c d e f g. gm a b c d e f g \<noteq> gw 2 24 (Float 0) (Float 0) (Float 0) (Float 0) (Float 0) (Float 0.25) (Float 0.001)"
    by (simp add: gw_def gm_eq)
  have FT: "ge \<noteq> gw 2 24 (Float 0) (Float 0) (Float 0) (Float 0) (Float 0) (Float 0.25) (Float 0.001)" "ex 0 0 \<noteq> gw 2 24 (Float 0) (Float 0) (Float 0) (Float 0) (Float 0) (Float 0.25) (Float 0.001)"
     "fr (Float 1089) (Float 0.05) (PyFloat 40) \<noteq> gw 2 24 (Float 0) (Float 0) (Float 0) (Float 0) (Float 0) (Float 0.25) (Float 0.001)"
     "rp \<noteq> gw 2 24 (Float 0) (Float 0) (Float 0) (Float 0) (Float 0) (Float 0.25) (Float 0.001)" "en \<noteq> gw 2 24 (Float 0) (Float 0) (Float 0) (Float 0) (Float 0) (Float 0.25) (Float 0.001)"
    by (simp_all add: gw_def ge_eq ex_eq fr_eq rp_eq en_def)
  show ?thesis
    unfolding deck sum.sel recs
    using GA GM FT GM [symmetric] FT [symmetric] by simp
qed

section \<open>The excitation point\<close>

text \<open>
  C5: after a successful call sequence on a fresh model with at least one append call,
  the current tag is the number of append calls, that is the tag of the most recent
  element; \<^verbatim>\<open>feedAtStart\<close> records that tag with segment 1, and \<^verbatim>\<open>feedAtMiddle\<close>
  succeeds and records that tag with the segment count of the most recent element
  halved, rounded down, plus 1. For a wire of 24 segments the segments are 1 and 13.
\<close>

theorem feed_records_latest_element:
  assumes "run (Model_init r w f v) calls = Inr self'" and "appends calls \<noteq> []"
  shows "tag self' = int (length (appends calls)) \<and>
         EX_tag (feedAtStart self') = tag self' \<and>
         EX_segment (feedAtStart self') = 1 \<and>
         (\<exists>fed. feedAtMiddle self' = Inr fed \<and> EX_tag fed = tag self' \<and>
            EX_segment fed = segments_of (last (appends calls)) div 2 + 1)"
  using run_invariant [OF assms(1), of "[]"] run_middle [OF assms]
  by (simp add: Model_init_fields feedAtStart_def feedAtMiddle_def)

theorem feed_records_latest_element_witness:
  "EX_tag (feedAtStart (projr (run (Model_init (Float 0.001) None None 1)
      [AddWire 24 \<lparr>x = Float 0, y = Float 0, z = Float 0\<rparr> \<lparr>x = Float 0, y = Float 0, z = Float 0.25\<rparr>]))) = 1 \<and>
   EX_segment (feedAtStart (projr (run (Model_init (Float 0.001) None None 1)
      [AddWire 24 \<lparr>x = Float 0, y = Float 0, z = Float 0\<rparr> \<lparr>x = Float 0, y = Float 0, z = Float 0.25\<rparr>]))) = 1 \<and>
   EX_tag (projr (feedAtMiddle (projr (run (Model_init (Float 0.001) None None 1)
      [AddWire 24 \<lparr>x = Float 0, y = Float 0, z = Float 0\<rparr> \<lparr>x = Float 0, y = Float 0, z = Float 0.25\<rparr>])))) = 1 \<and>
   EX_segment (projr (feedAtMiddle (projr (run (Model_init (Float 0.001) None None 1)
      [AddWire 24 \<lparr>x = Float 0, y = Float 0, z = Float 0\<rparr> \<lparr>x = Float 0, y = Float 0, z = Float 0.25\<rparr>])))) = 13"
proof -
  let ?calls = "[AddWire 24 \<lparr>x = Float 0, y = Float 0, z = Float 0\<rparr> \<lparr>x = Float 0, y = Float 0, z = Float 0.25\<rparr>]"
  have "\<exists>s. run (Model_init (Float 0.001) None None 1) ?calls = Inr s"
    by simp
  then obtain s where s: "run (Model_init (Float 0.001) None None 1) ?calls = Inr s" ..
  have ne: "appends ?calls \<noteq> []" by (simp add: appends_def)
  from feed_records_latest_element [OF s ne] show ?thesis
    unfolding s by (auto simp: appends_def)
qed

section \<open>Field widths and record ends\<close>

text \<open>
  C4, as the code has it. The records of the finalized deck are the cards of the append
  calls, the emitted transform cards and the five trailing cards, and every card is a
  two-character mnemonic, then its integer fields, then its real fields, then the
  newline. An integer field is the argument truncated toward zero, printed in decimal
  and right-justified with blanks; in a record whose integer fields all have a truncated
  value between -99999 and 999999, the \<open>j\<close>-th of them occupies the 6 columns from
  \<open>2 + 6 j\<close>. A real field of a float that is a zero or of magnitude between
  \<open>10\<^sup>-\<^sup>N\<close> and \<open>10\<^sup>N\<close>, for some \<open>N\<close> up to 999 (every finite float is), is 13
  characters wide and right-justified with blanks: a sign position, which holds a minus
  sign for a negative number and for negative zero and a blank for any other float,
  then one digit, the point, five digits, the letter E, the sign of the exponent and two
  or three exponent digits; in such a record the \<open>j\<close>-th real field occupies the 13
  columns that follow the integer fields and the real fields before it. The record is
  then \<open>2 + 6 a + 13 b + 1\<close> characters long for \<open>a\<close> integer and \<open>b\<close> real fields, and
  its last character is a newline, the only one in it.
\<close>

theorem field_widths_and_record_ends:
  assumes "\<forall>i\<in>set ints. - 99999 \<le> trunc i \<and> trunc i \<le> 999999"
    and "\<forall>f\<in>set reals. fval f = 0 \<or> (1 / 10 ^ N \<le> \<bar>fval f\<bar> \<and> \<bar>fval f\<bar> < 10 ^ N)"
    and "0 < N" and "N \<le> 999"
    and "length mnemonic = 2"
    and "run (Model_init r w fq v) calls = Inr self'"
  shows "(records (getText self' st sz n) =
            map (\<lambda>i. primitive_record r (int i + 1) (appends calls ! i))
                [0..<length (appends calls)]
            @ map gm_text (transform_log 0 [] calls)
            @ [ge, ex (EX_tag self') (EX_segment self'), fr st sz n, rp, en]) \<and>
         (gw t s x1 y1 z1 x2 y2 z2 rad =
            card_layout ''GW'' [PyInt t, PyInt s] [x1, y1, z1, x2, y2, z2, rad] \<and>
          gh t s p h a1 b1 a2 b2 rad =
            card_layout ''GH'' [PyInt t, PyInt s] [p, h, a1, b1, a2, b2, rad] \<and>
          ga t s ar sa ea rad =
            card_layout ''GA'' [PyInt t, PyInt s] [ar, sa, ea, rad, Float 0, Float 0, Float 0] \<and>
          gm rX rY rZ tX tY tZ t =
            card_layout ''GM'' [PyInt 0, PyInt 0] [rX, rY, rZ, tX, tY, tZ, Float (of_int t)] \<and>
          ge = card_layout ''GE'' [PyInt 0, PyInt 0]
                 [Float 0, Float 0, Float 0, Float 0, Float 0, Float 0, Float 0] \<and>
          fr st sz n = card_layout ''FR'' [PyInt 0, n, PyInt 0, PyInt 0] [st, sz] \<and>
          ex t s = card_layout ''EX'' [PyInt 0, PyInt t, PyInt s, PyInt 0]
                     [Float 1, Float 0, Float 0, Float 0, Float 0, Float 0] \<and>
          rp = card_layout ''RP'' [PyInt 0, PyInt 37, PyInt 37, PyInt 0]
                 [Float 0, Float 0, Float 10, Float 10] \<and>
          en = card_layout ''EN'' [] []) \<and>
         (dec i = replicate (6 - length (str_int (trunc i))) (CHR '' '') @ str_int (trunc i) \<and>
          trunc (PyInt k) = k \<and>
          \<bar>of_int (trunc (PyFloat g))\<bar> \<le> \<bar>g\<bar> \<and> \<bar>g - of_int (trunc (PyFloat g))\<bar> < 1 \<and>
          sci f = replicate (12 - length (format_E5 \<bar>fval f\<bar>)) (CHR '' '')
                  @ (if fval f < 0 \<or> f = NegZero then ''-'' else '' '')
                  @ format_E5 \<bar>fval f\<bar>) \<and>
         (\<forall>j<length ints.
            take 6 (drop (2 + 6 * j) (card_layout mnemonic ints reals)) = dec (ints ! j) \<and>
            length (dec (ints ! j)) = 6) \<and>
         (\<forall>j<length reals.
            take 13 (drop (2 + 6 * length ints + 13 * j) (card_layout mnemonic ints reals))
              = sci (reals ! j) \<and>
            length (sci (reals ! j)) = 13 \<and>
            E5_shape (format_E5 \<bar>fval (reals ! j)\<bar>)) \<and>
         (length (card_layout mnemonic ints reals)
            = 2 + 6 * length ints + 13 * length reals + 1 \<and>
          drop (2 + 6 * length ints + 13 * length reals) (card_layout mnemonic ints reals)
            = newline) \<and>
         (is_record (gw t s x1 y1 z1 x2 y2 z2 rad) \<and>
          is_record (gh t s p h a1 b1 a2 b2 rad) \<and>
          is_record (ga t s ar sa ea rad) \<and>
          is_record (gm rX rY rZ tX tY tZ t) \<and>
          is_record ge \<and> is_record (fr st sz n) \<and> is_record (ex t s) \<and>
          is_record rp \<and> is_record en)"
proof -
  have di: "\<forall>i\<in>set ints. length (dec i) = 6"
    using assms(1) by (simp add: length_dec_6)
  have dr: "\<forall>f\<in>set reals. E5_shape (format_E5 \<bar>fval f\<bar>) \<and> length (sci f) = 13"
  proof
    fix f assume "f \<in> set reals"
    with assms(2)
    have "fval f = 0 \<or> (1 / 10 ^ N \<le> \<bar>fval f\<bar> \<and> \<bar>fval f\<bar> < 10 ^ N)" by simp
    then show "E5_shape (format_E5 \<bar>fval f\<bar>) \<and> length (sci f) = 13"
      using assms(3,4) by (rule length_sci)
  qed
  then have dl: "\<forall>f\<in>set reals. length (sci f) = 13" by simp
  note cols = card_layout_columns [OF di dl assms(5)]
  have deck: "records (getText self' st sz n) =
            map (\<lambda>i. primitive_record r (int i + 1) (appends calls ! i))
                [0..<length (appends calls)]
            @ map gm_text (transform_log 0 [] calls)
            @ [ge, ex (EX_tag self') (EX_segment self'), fr st sz n, rp, en]"
    using assms(6) by (rule deck_records)
  have fields: "dec i = replicate (6 - length (str_int (trunc i))) (CHR '' '') @ str_int (trunc i) \<and>
          trunc (PyInt k) = k \<and>
          \<bar>of_int (trunc (PyFloat g))\<bar> \<le> \<bar>g\<bar> \<and> \<bar>g - of_int (trunc (PyFloat g))\<bar> < 1 \<and>
          sci f = replicate (12 - length (format_E5 \<bar>fval f\<bar>)) (CHR '' '')
                  @ (if fval f < 0 \<or> f = NegZero then ''-'' else '' '')
                  @ format_E5 \<bar>fval f\<bar>"
    using trunc_toward_zero [of g] sci_sign [of f] by (simp add: dec_def rjust_def)
  have ints: "\<forall>j<length ints.
            take 6 (drop (2 + 6 * j) (card_layout mnemonic ints reals)) = dec (ints ! j) \<and>
            length (dec (ints ! j)) = 6"
    using cols(1) di by simp
  have reals: "\<forall>j<length reals.
            take 13 (drop (2 + 6 * length ints + 13 * j) (card_layout mnemonic ints reals))
              = sci (reals ! j) \<and>
            length (sci (reals ! j)) = 13 \<and>
            E5_shape (format_E5 \<bar>fval (reals ! j)\<bar>)"
    using cols(2) dr by simp
  from deck fields ints reals cols(3,4) show ?thesis
    by (intro conjI cards_layout cards_are_records) simp_all
qed

theorem field_widths_and_record_ends_witness:
  "records (getText (projr (run (Model_init (Float 0.001) None None 1)
      [AddArc 4 (Float 0.5) (Float 0) (Float 90) \<lparr>rx = Float 0, ry = Float 0, rz = Float 180\<rparr>
         \<lparr>x = Float 1, y = Float 0, z = Float 2\<rparr>,
       AddWire 24 \<lparr>x = Float 0, y = Float 0, z = Float 0\<rparr> \<lparr>x = Float 0, y = Float 0, z = Float 0.25\<rparr>]))
      (Float 1089) (Float 0.05) (PyFloat 40.7)) =
     [ga 1 4 (Float 0.5) (Float 0) (Float 90) (Float 0.001),
      gw 2 24 (Float 0) (Float 0) (Float 0) (Float 0) (Float 0) (Float 0.25) (Float 0.001),
      gm (Float 0) (Float 0) (Float 180) (Float 1) (Float 0) (Float 2) 1,
      gm (Float 0) (Float 0) (Float 0) (Float (- 1)) NegZero (Float (- 2)) 2,
      gm (Float 0) (Float 0) (Float (- 180)) (Float 0) (Float 0) (Float 0) 2,
      gm (Float 0) NegZero (Float 0) (Float 0) (Float 0) (Float 0) 2,
      gm NegZero (Float 0) (Float 0) (Float 0) (Float 0) (Float 0) 2,
      ge, ex 0 0, fr (Float 1089) (Float 0.05) (PyFloat 40.7), rp, en] \<and>
   gm (Float 0) (Float 0) (Float 0) (Float (- 1)) NegZero (Float (- 2)) 2 =
     ''GM     0     0  0.00000E+00  0.00000E+00  0.00000E+00 -1.00000E+00 -0.00000E+00 -2.00000E+00  2.00000E+00\<newline>'' \<and>
   take 6 (drop 8 (gm (Float 0) (Float 0) (Float 0) (Float (- 1)) NegZero (Float (- 2)) 2))
     = ''     0'' \<and>
   take 13 (drop 66 (gm (Float 0) (Float 0) (Float 0) (Float (- 1)) NegZero (Float (- 2)) 2))
     = '' -0.00000E+00'' \<and>
   length (gm (Float 0) (Float 0) (Float 0) (Float (- 1)) NegZero (Float (- 2)) 2) = 106 \<and>
   drop 105 (gm (Float 0) (Float 0) (Float 0) (Float (- 1)) NegZero (Float (- 2)) 2) = newline \<and>
   fr (Float 1089) (Float 0.05) (PyFloat 40.7) =
     ''FR     0    40     0     0  1.08900E+03  5.00000E-02\<newline>''"
proof -
  let ?calls = "[AddArc 4 (Float 0.5) (Float 0) (Float 90)
         \<lparr>rx = Float 0, ry = Float 0, rz = Float 180\<rparr> \<lparr>x = Float 1, y = Float 0, z = Float 2\<rparr>,
       AddWire 24 \<lparr>x = Float 0, y = Float 0, z = Float 0\<rparr> \<lparr>x = Float 0, y = Float 0, z = Float 0.25\<rparr>]"
  let ?ints = "[PyInt 0, PyInt 0]"
  let ?reals = "[Float 0, Float 0, Float 0, Float (- 1), NegZero, Float (- 2), Float 2]"
  have "\<exists>s. run (Model_init (Float 0.001) None None 1) ?calls = Inr s"
    by simp
  then obtain s where s: "run (Model_init (Float 0.001) None None 1) ?calls = Inr s" ..
  have ex0: "EX_tag s = 0 \<and> EX_segment s = 0"
    using s by (auto simp: addWire_eq addArc_eq Model_init_fields)
  have h1: "\<forall>i\<in>set ?ints. - 99999 \<le> trunc i \<and> trunc i \<le> 999999" by simp
  have h2: "\<forall>f\<in>set ?reals. fval f = 0 \<or> (1 / 10 ^ 2 \<le> \<bar>fval f\<bar> \<and> \<bar>fval f\<bar> < 10 ^ 2)"
    by simp
  have h3: "0 < (2::nat)" "(2::nat) \<le> 999" "length ''GM'' = 2"
    by simp_all
  note th = field_widths_and_record_ends [OF h1 h2 h3 s,
      where st = "Float 1089" and sz = "Float 0.05" and n = "PyFloat 40.7"
        and rX = "Float 0" and rY = "Float 0" and rZ = "Float 0"
        and tX = "Float (- 1)" and tY = NegZero and tZ = "Float (- 2)" and t = 2]
  note deck = th [THEN conjunct1]
  note layout = th [THEN conjunct2, THEN conjunct1]
  note ints = th [THEN conjunct2, THEN conjunct2, THEN conjunct2, THEN conjunct1,
      rule_format, of 1]
  note reals = th [THEN conjunct2, THEN conjunct2, THEN conjunct2, THEN conjunct2,
      THEN conjunct1, rule_format, of 4]
  note ends = th [THEN conjunct2, THEN conjunct2, THEN conjunct2, THEN conjunct2,
      THEN conjunct2, THEN conjunct1]
  have card: "gm (Float 0) (Float 0) (Float 0) (Float (- 1)) NegZero (Float (- 2)) 2 =
      card_layout ''GM'' ?ints ?reals"
    using layout by simp
  have a: "records (getText s (Float 1089) (Float 0.05) (PyFloat 40.7)) =
     [ga 1 4 (Float 0.5) (Float 0) (Float 90) (Float 0.001),
      gw 2 24 (Float 0) (Float 0) (Float 0) (Float 0) (Float 0) (Float 0.25) (Float 0.001),
      gm (Float 0) (Float 0) (Float 180) (Float 1) (Float 0) (Float 2) 1,
      gm (Float 0) (Float 0) (Float 0) (Float (- 1)) NegZero (Float (- 2)) 2,
      gm (Float 0) (Float 0) (Float (- 180)) (Float 0) (Float 0) (Float 0) 2,
      gm (Float 0) NegZero (Float 0) (Float 0) (Float 0) (Float 0) 2,
      gm NegZero (Float 0) (Float 0) (Float 0) (Float 0) (Float 0) 2,
      ge, ex 0 0, fr (Float 1089) (Float 0.05) (PyFloat 40.7), rp, en]"
    using deck ex0
    by (simp add: appends_def upt_rec own_transforms_def queued_transforms_def placement_def
          restoration_def)
  have b: "take 6 (drop 8 (card_layout ''GM'' ?ints ?reals)) = dec (PyInt 0)"
    using ints by simp
  have c: "take 13 (drop 66 (card_layout ''GM'' ?ints ?reals)) = sci NegZero"
    using reals by simp
  have d: "length (card_layout ''GM'' ?ints ?reals) = 106
           \<and> drop 105 (card_layout ''GM'' ?ints ?reals) = newline"
    using ends by simp
  have e: "sci NegZero = '' -0.00000E+00''" by (simp add: format_eval)
  have f: "card_layout ''GM'' ?ints ?reals =
     ''GM     0     0  0.00000E+00  0.00000E+00  0.00000E+00 -1.00000E+00 -0.00000E+00 -2.00000E+00  2.00000E+00\<newline>''"
    by (simp add: card_layout_def newline_def sci_0 dec_0 format_eval)
  have g: "fr (Float 1089) (Float 0.05) (PyFloat 40.7) =
     ''FR     0    40     0     0  1.08900E+03  5.00000E-02\<newline>''"
    by (simp add: card_eqs newline_def sci_0 dec_0 format_eval)
  from a b c d e f g show ?thesis
    unfolding s sum.sel card by (simp add: dec_0 newline_def)
qed

text \<open>
  An integer of seven digits is printed in seven characters, and a positive real is
  printed with a blank, not a plus sign, in its sign position.
\<close>

theorem field_width_counterexample:
  "length (dec (PyInt 1000000)) = 7 \<and> dec (PyInt 1000000) = ''1000000'' \<and>
   sci (Float 1) = ''  1.00000E+00''"
  by (simp add: format_eval)

section \<open>Finalizing without a feed point\<close>

text \<open>
  C6, as the code has it. \<^verbatim>\<open>__init__\<close> sets the excitation tag and segment to 0, and
  \<^verbatim>\<open>getText\<close> checks nothing: when no feed call was made, finalization succeeds and
  returns the deck whose excitation card carries tag 0 and segment 0.
\<close>

theorem getText_without_feed:
  assumes "run (Model_init r w f v) calls = Inr self'"
    and "FeedAtStart \<notin> set calls" and "FeedAtMiddle \<notin> set calls"
  shows "script (Model_init r w f v) calls start stepSize stepCount =
           Inr (wires self' @ transforms self' @ ge @ ex 0 0 @ fr start stepSize stepCount
                @ rp @ en)"
  using run_no_feed [OF assms]
  by (simp add: script_def assms(1) getText_eq Model_init_fields)


theorem getText_without_feed_witness:
  "script (Model_init (Float 0.001) None None 1)
      [AddWire 24 \<lparr>x = Float 0, y = Float 0, z = Float 0\<rparr> \<lparr>x = Float 0, y = Float 0, z = Float 0.25\<rparr>] (Float 1089) (Float 0.05) (PyFloat 40) =
     Inr (gw 1 24 (Float 0) (Float 0) (Float 0) (Float 0) (Float 0) (Float 0.25) (Float 0.001) @ ge @ ex 0 0 @ fr (Float 1089) (Float 0.05) (PyFloat 40) @ rp @ en)"
proof -
  let ?calls = "[AddWire 24 \<lparr>x = Float 0, y = Float 0, z = Float 0\<rparr> \<lparr>x = Float 0, y = Float 0, z = Float 0.25\<rparr>]"
  have "\<exists>s. run (Model_init (Float 0.001) None None 1) ?calls = Inr s"
    by simp
  then obtain s where s: "run (Model_init (Float 0.001) None None 1) ?calls = Inr s" ..
  have w: "wires s = gw 1 24 (Float 0) (Float 0) (Float 0) (Float 0) (Float 0) (Float 0.25) (Float 0.001) \<and> transforms s = []"
    using s by (auto simp: addWire_eq Model_init_fields)
  from getText_without_feed [OF s, of "Float 1089" "Float 0.05" "PyFloat 40"] w show ?thesis
    by simp
qed

text \<open>The deck of a single wire without a feed point: it is returned, with \<^verbatim>\<open>EX 0 0 0 0\<close>.\<close>

theorem getText_without_feed_counterexample:
  "\<not> isl (script (Model_init (Float 0.001) None None 1)
      [AddWire 24 \<lparr>x = Float 0, y = Float 0, z = Float 0\<rparr> \<lparr>x = Float 0, y = Float 0, z = Float 0.25\<rparr>] (Float 1089) (Float 0.05) (PyFloat 40)) \<and>
   script (Model_init (Float 0.001) None None 1)
      [AddWire 24 \<lparr>x = Float 0, y = Float 0, z = Float 0\<rparr> \<lparr>x = Float 0, y = Float 0, z = Float 0.25\<rparr>] (Float 1089) (Float 0.05) (PyFloat 40) =
     Inr (''GW     1    24  0.00000E+00  0.00000E+00  0.00000E+00  0.00000E+00  0.00000E+00  2.50000E-01  1.00000E-03\<newline>''
          @ ''GE     0     0  0.00000E+00  0.00000E+00  0.00000E+00  0.00000E+00  0.00000E+00  0.00000E+00  0.00000E+00\<newline>EX     0     0     0     0  1.00000E+00  0.00000E+00  0.00000E+00  0.00000E+00  0.00000E+00  0.00000E+00\<newline>FR     0    40     0     0  1.08900E+03  5.00000E-02\<newline>RP     0    37    37     0  0.00000E+00  0.00000E+00  1.00000E+01  1.00000E+01\<newline>EN\<newline>'')"
  using trailing_cards_text wire_card_text
  by (simp add: script_def getText_eq addWire_eq Model_init_fields)

section \<open>Finalizing twice\<close>

text \<open>
  C9, as the code has it. \<^verbatim>\<open>getText\<close> leaves the object as it found it, so a second
  call with the same arguments returns the same text as the first: the trailing cards
  are not duplicated.
\<close>

theorem getText_call_twice:
  "fst (getText_call (snd (getText_call self start stepSize stepCount)) start stepSize stepCount)
     = fst (getText_call self start stepSize stepCount) \<and>
   snd (getText_call (snd (getText_call self start stepSize stepCount)) start stepSize stepCount)
     = self"
  by (simp add: getText_call_def)


text \<open>On a fresh model both calls return the five trailing cards once.\<close>

theorem getText_call_twice_counterexample:
  "fst (getText_call (snd (getText_call (Model_init (Float 0.001) None None 1) (Float 1089) (Float 0.05) (PyFloat 40)))
         (Float 1089) (Float 0.05) (PyFloat 40)) =
   fst (getText_call (Model_init (Float 0.001) None None 1) (Float 1089) (Float 0.05) (PyFloat 40)) \<and>
   fst (getText_call (snd (getText_call (Model_init (Float 0.001) None None 1) (Float 1089) (Float 0.05) (PyFloat 40)))
         (Float 1089) (Float 0.05) (PyFloat 40)) =
     ''GE     0     0  0.00000E+00  0.00000E+00  0.00000E+00  0.00000E+00  0.00000E+00  0.00000E+00  0.00000E+00\<newline>EX     0     0     0     0  1.00000E+00  0.00000E+00  0.00000E+00  0.00000E+00  0.00000E+00  0.00000E+00\<newline>FR     0    40     0     0  1.08900E+03  5.00000E-02\<newline>RP     0    37    37     0  0.00000E+00  0.00000E+00  1.00000E+01  1.00000E+01\<newline>EN\<newline>''"
  using trailing_cards_text
  by (simp add: getText_call_def getText_eq Model_init_fields)

end
